theory Spec2Isabelle
  imports Complex_Main
begin

section \<open>Values of the loaded JSON document\<close>

text \<open>
  \<^verbatim>\<open>json.load\<close> gives Python values: \<^verbatim>\<open>None\<close>, \<^verbatim>\<open>bool\<close>, \<^verbatim>\<open>int\<close>, \<^verbatim>\<open>float\<close>, \<^verbatim>\<open>str\<close>,
  \<^verbatim>\<open>list\<close> and \<^verbatim>\<open>dict\<close> with string keys. A dict is an association list in insertion
  order; a lookup takes the first binding of the key (\<open>map_of\<close>). Strings are \<open>string\<close>.
  A float is represented by a real number; only its being zero is ever inspected.
\<close>

datatype json =
    JNull
  | JBool bool
  | JInt int
  | JFloat real
  | JStr string
  | JArr "json list"
  | JObj "(string \<times> json) list"

text \<open>The exceptions the script can raise, as values.\<close>

datatype py_error =
    KeyError string
  | TypeError
  | AttributeError
  | ValueError
  | FileNotFoundError
  | JSONDecodeError

type_synonym flat = "(string \<times> json) list"

type_synonym fs = "string \<rightharpoonup> string"

definition bind_err :: "'e + 'a \<Rightarrow> ('a \<Rightarrow> 'e + 'b) \<Rightarrow> 'e + 'b" where
  "bind_err m f = (case m of Inl e \<Rightarrow> Inl e | Inr x \<Rightarrow> f x)"

section \<open>Python primitives used by the script\<close>

text \<open>\<^verbatim>\<open>x[k]\<close> with a string key: only a dict can be subscripted by a string.\<close>

fun py_getitem :: "json \<Rightarrow> string \<Rightarrow> py_error + json" where
  "py_getitem (JObj kvs) k = (case map_of kvs k of None \<Rightarrow> Inl (KeyError k) | Some v \<Rightarrow> Inr v)"
| "py_getitem _ k = Inl TypeError"

text \<open>\<^verbatim>\<open>x.get(k, d)\<close>: only a dict has the method; a key bound to \<^verbatim>\<open>None\<close> is present.\<close>

fun py_get :: "json \<Rightarrow> string \<Rightarrow> json \<Rightarrow> py_error + json" where
  "py_get (JObj kvs) k d = Inr (case map_of kvs k of None \<Rightarrow> d | Some v \<Rightarrow> v)"
| "py_get _ k d = Inl AttributeError"

text \<open>Truth value of a Python object, as the conditional expression tests it.\<close>

fun truthy :: "json \<Rightarrow> bool" where
  "truthy JNull = False"
| "truthy (JBool b) = b"
| "truthy (JInt n) = (n \<noteq> 0)"
| "truthy (JFloat r) = (r \<noteq> 0)"
| "truthy (JStr s) = (s \<noteq> [])"
| "truthy (JArr xs) = (xs \<noteq> [])"
| "truthy (JObj kvs) = (kvs \<noteq> [])"

text \<open>The keys of a dict in insertion order, each once.\<close>

fun dict_keys :: "(string \<times> 'v) list \<Rightarrow> string list" where
  "dict_keys [] = []"
| "dict_keys ((k, v) # kvs) = k # filter (\<lambda>k'. k' \<noteq> k) (dict_keys kvs)"

text \<open>
  Iteration (\<^verbatim>\<open>for x in v\<close>, and the argument of \<^verbatim>\<open>join\<close>): a list gives its items, a
  string its characters, a dict its keys; anything else is not iterable.
\<close>

fun py_iter :: "json \<Rightarrow> py_error + json list" where
  "py_iter (JArr xs) = Inr xs"
| "py_iter (JStr s) = Inr (map (\<lambda>c. JStr [c]) s)"
| "py_iter (JObj kvs) = Inr (map JStr (dict_keys kvs))"
| "py_iter _ = Inl TypeError"

fun join_strs :: "string \<Rightarrow> string list \<Rightarrow> string" where
  "join_strs sep [] = []"
| "join_strs sep [s] = s"
| "join_strs sep (s # t # ss) = s @ sep @ join_strs sep (t # ss)"

fun is_str :: "json \<Rightarrow> bool" where
  "is_str (JStr s) = True"
| "is_str _ = False"

fun str_of :: "json \<Rightarrow> string" where
  "str_of (JStr s) = s"
| "str_of _ = []"

text \<open>\<^verbatim>\<open>sep.join(v)\<close>: every item must be a \<^verbatim>\<open>str\<close>.\<close>

definition str_join :: "string \<Rightarrow> json \<Rightarrow> py_error + string" where
  "str_join sep v =
     bind_err (py_iter v) (\<lambda>items.
       if list_all is_str items then Inr (join_strs sep (map str_of items))
       else Inl TypeError)"

text \<open>
  The expression \<^verbatim>\<open>'|'.join(x.get(k, [])) if x.get(k) else ''\<close>, which the source writes
  out for \<^verbatim>\<open>tags\<close>, \<^verbatim>\<open>expertise\<close> and \<^verbatim>\<open>achievements\<close>. The condition is evaluated first.
\<close>

definition joined_field :: "json \<Rightarrow> string \<Rightarrow> py_error + json" where
  "joined_field x k =
     bind_err (py_get x k JNull) (\<lambda>c.
       if truthy c
       then bind_err (py_get x k (JArr [])) (\<lambda>v.
              bind_err (str_join ''|'' v) (\<lambda>s. Inr (JStr s)))
       else Inr (JStr []))"

text \<open>
  A dict display \<^verbatim>\<open>{k1: e1, k2: e2, ...}\<close>: the values are evaluated from left to right
  and the first exception ends the evaluation.
\<close>

fun dict_display :: "(string \<times> (py_error + json)) list \<Rightarrow> py_error + flat" where
  "dict_display [] = Inr []"
| "dict_display ((k, m) # rest) =
     (case m of
        Inl e \<Rightarrow> Inl e
      | Inr v \<Rightarrow> (case dict_display rest of Inl e \<Rightarrow> Inl e | Inr r \<Rightarrow> Inr ((k, v) # r)))"

text \<open>
  The loop \<^verbatim>\<open>out = []; for x in xs: out.append(f(x)); return out\<close>: the first exception
  ends it.
\<close>

fun for_append :: "('a \<Rightarrow> py_error + 'b) \<Rightarrow> 'a list \<Rightarrow> py_error + 'b list" where
  "for_append f [] = Inr []"
| "for_append f (x # xs) =
     (case f x of
        Inl e \<Rightarrow> Inl e
      | Inr y \<Rightarrow> (case for_append f xs of Inl e \<Rightarrow> Inl e | Inr ys \<Rightarrow> Inr (y # ys)))"

section \<open>The extractors\<close>

text \<open>The dict built for one session (lines 29 to 42).\<close>

definition session_record :: "json \<Rightarrow> py_error + flat" where
  "session_record session = dict_display
     [(''id'', py_getitem session ''id''),
      (''title'', py_getitem session ''title''),
      (''description'', py_get session ''description'' (JStr [])),
      (''startTime'', py_getitem session ''startTime''),
      (''endTime'', py_getitem session ''endTime''),
      (''location'', py_get session ''location'' (JStr [])),
      (''track'', py_get session ''track'' (JStr [])),
      (''level'', py_get session ''level'' (JStr [])),
      (''tags'', joined_field session ''tags''),
      (''sourceUrl'', py_get session ''sourceUrl'' (JStr [])),
      (''lastUpdated'', py_get session ''lastUpdated'' (JStr [])),
      (''createdAt'', py_getitem session ''createdAt'')]"

definition extract_sessions :: "json \<Rightarrow> py_error + flat list" where
  "extract_sessions data =
     bind_err (py_getitem data ''data'') (\<lambda>d.
     bind_err (py_getitem d ''sessions'') (\<lambda>v.
     bind_err (py_iter v) (\<lambda>xs. for_append session_record xs)))"

text \<open>The dict built for one speaker (lines 49 to 65).\<close>

definition speaker_record :: "json \<Rightarrow> py_error + flat" where
  "speaker_record speaker = dict_display
     [(''id'', py_getitem speaker ''id''),
      (''name'', py_getitem speaker ''name''),
      (''bio'', py_get speaker ''bio'' (JStr [])),
      (''company'', py_get speaker ''company'' (JStr [])),
      (''role'', py_get speaker ''role'' (JStr [])),
      (''imageUrl'', py_get speaker ''imageUrl'' (JStr [])),
      (''linkedinUrl'', py_get speaker ''linkedinUrl'' (JStr [])),
      (''twitterUrl'', py_get speaker ''twitterUrl'' (JStr [])),
      (''websiteUrl'', py_get speaker ''websiteUrl'' (JStr [])),
      (''profileSummary'', py_get speaker ''profileSummary'' (JStr [])),
      (''companyProfile'', py_get speaker ''companyProfile'' (JStr [])),
      (''expertise'', joined_field speaker ''expertise''),
      (''achievements'', joined_field speaker ''achievements''),
      (''lastProfileSync'', py_get speaker ''lastProfileSync'' (JStr [])),
      (''createdAt'', py_getitem speaker ''createdAt'')]"

definition extract_speakers :: "json \<Rightarrow> py_error + flat list" where
  "extract_speakers data =
     bind_err (py_getitem data ''data'') (\<lambda>d.
     bind_err (py_getitem d ''speakers'') (\<lambda>v.
     bind_err (py_iter v) (\<lambda>xs. for_append speaker_record xs)))"

text \<open>The dict built for one relationship (lines 72 to 75).\<close>

definition relationship_record :: "json \<Rightarrow> py_error + flat" where
  "relationship_record rel = dict_display
     [(''sessionId'', py_getitem rel ''sessionId''),
      (''speakerId'', py_getitem rel ''speakerId'')]"

definition extract_session_speakers :: "json \<Rightarrow> py_error + flat list" where
  "extract_session_speakers data =
     bind_err (py_getitem data ''data'') (\<lambda>d.
     bind_err (py_getitem d ''sessionSpeakers'') (\<lambda>v.
     bind_err (py_iter v) (\<lambda>xs. for_append relationship_record xs)))"

section \<open>The writer\<close>

text \<open>
  \<^verbatim>\<open>csv.DictWriter(csvfile, fieldnames=fieldnames)\<close> is the standard library's writer
  with its defaults: the \<^verbatim>\<open>excel\<close> dialect (delimiter comma, quote character
  double quote, doubled quotes, minimal quoting, line end CR LF), \<^verbatim>\<open>restval=''\<close> and
  \<^verbatim>\<open>extrasaction='raise'\<close>. The text of a value that is neither \<^verbatim>\<open>None\<close> nor a \<^verbatim>\<open>str\<close>
  is Python's \<^verbatim>\<open>str()\<close> of it, which is not part of the script: the parameter \<open>py_str\<close>.
\<close>

definition dquote :: char where
  "dquote = CHR 0x22"

definition crlf :: string where
  "crlf = [CHR 0x0D, CHR 0x0A]"

definition needs_quote :: "string \<Rightarrow> bool" where
  "needs_quote s =
     list_ex (\<lambda>c. c = CHR '','' \<or> c = dquote \<or> c = CHR 0x0D \<or> c = CHR 0x0A) s"

definition csv_field :: "string \<Rightarrow> string" where
  "csv_field s =
     (if needs_quote s
      then dquote # concat (map (\<lambda>c. if c = dquote then [dquote, dquote] else [c]) s) @ [dquote]
      else s)"

text \<open>A record whose only field is empty is written as a pair of quotes.\<close>

definition csv_row :: "string list \<Rightarrow> string" where
  "csv_row fields =
     (if fields = [[]] then [dquote, dquote] @ crlf
      else join_strs '','' (map csv_field fields) @ crlf)"

fun csv_cell :: "(json \<Rightarrow> string) \<Rightarrow> json \<Rightarrow> string" where
  "csv_cell py_str (JStr s) = s"
| "csv_cell py_str JNull = []"
| "csv_cell py_str v = py_str v"

text \<open>
  \<^verbatim>\<open>DictWriter._dict_to_list\<close>: a key of the row outside the field names raises
  \<^verbatim>\<open>ValueError\<close>; a field name the row lacks takes \<^verbatim>\<open>restval\<close>, the empty string.
\<close>

definition dict_to_list :: "string list \<Rightarrow> flat \<Rightarrow> py_error + json list" where
  "dict_to_list fieldnames rowdict =
     (if list_ex (\<lambda>k. k \<notin> set fieldnames) (map fst rowdict) then Inl ValueError
      else Inr (map (\<lambda>k. case map_of rowdict k of None \<Rightarrow> JStr [] | Some v \<Rightarrow> v) fieldnames))"

text \<open>\<^verbatim>\<open>writeheader\<close> writes the field names as a row.\<close>

definition writeheader :: "string list \<Rightarrow> string" where
  "writeheader fieldnames = csv_row fieldnames"

text \<open>
  \<^verbatim>\<open>writerows\<close> converts and writes the rows one after the other: the text written so
  far, and the exception that stopped it, if any.
\<close>

fun writerows :: "(json \<Rightarrow> string) \<Rightarrow> string list \<Rightarrow> flat list \<Rightarrow> string \<times> py_error option" where
  "writerows py_str fieldnames [] = ([], None)"
| "writerows py_str fieldnames (r # rs) =
     (case dict_to_list fieldnames r of
        Inl e \<Rightarrow> ([], Some e)
      | Inr vs \<Rightarrow>
          (case writerows py_str fieldnames rs of
             (t, e) \<Rightarrow> (csv_row (map (csv_cell py_str) vs) @ t, e)))"

text \<open>
  \<^verbatim>\<open>write_csv\<close>: the file is opened for writing (created or truncated), the header and
  the rows are written, and the file is closed on every exit of the \<^verbatim>\<open>with\<close> block, so
  what was written before an exception stays in the file. The file system maps a path
  to the text of the file. The progress line printed at the end is not modelled.
\<close>

definition write_csv ::
  "(json \<Rightarrow> string) \<Rightarrow> string \<Rightarrow> flat list \<Rightarrow> string list \<Rightarrow> fs \<Rightarrow> fs \<times> py_error option" where
  "write_csv py_str filename data fieldnames files =
     (case writerows py_str fieldnames data of
        (body, err) \<Rightarrow> (files(filename \<mapsto> writeheader fieldnames @ body), err))"

section \<open>The loader and the driver\<close>

text \<open>
  \<^verbatim>\<open>load_json_data\<close>: opening a file that does not exist raises; \<^verbatim>\<open>json.load\<close> is the
  standard library's parser, the parameter \<open>json_load\<close>.
\<close>

definition load_json_data :: "(string \<Rightarrow> py_error + json) \<Rightarrow> string \<Rightarrow> fs \<Rightarrow> py_error + json" where
  "load_json_data json_load filepath files =
     (case files filepath of None \<Rightarrow> Inl FileNotFoundError | Some text \<Rightarrow> json_load text)"

definition json_file :: string where
  "json_file = ''/Users/andrewbartels/Projects/my-itcAI-project/itc-conference-app/itc-conference-app/data/exports/latest-export.json''"

definition output_dir :: string where
  "output_dir = ''/Users/andrewbartels/Projects/my-itcAI-project/itc-conference-app/itc-conference-app/data/csv_exports''"

text \<open>\<^verbatim>\<open>os.path.join\<close> of two components (POSIX).\<close>

definition os_path_join :: "string \<Rightarrow> string \<Rightarrow> string" where
  "os_path_join a b =
     (if b \<noteq> [] \<and> hd b = CHR ''/'' then b
      else if a = [] \<or> last a = CHR ''/'' then a @ b
      else a @ ''/'' @ b)"

definition session_fields :: "string list" where
  "session_fields = [''id'', ''title'', ''description'', ''startTime'', ''endTime'',
     ''location'', ''track'', ''level'', ''tags'', ''sourceUrl'', ''lastUpdated'', ''createdAt'']"

definition speaker_fields :: "string list" where
  "speaker_fields = [''id'', ''name'', ''bio'', ''company'', ''role'', ''imageUrl'',
     ''linkedinUrl'', ''twitterUrl'', ''websiteUrl'', ''profileSummary'', ''companyProfile'',
     ''expertise'', ''achievements'', ''lastProfileSync'', ''createdAt'']"

definition relationship_fields :: "string list" where
  "relationship_fields = [''sessionId'', ''speakerId'']"

definition sessions_csv :: string where
  "sessions_csv = os_path_join output_dir ''sessions.csv''"

definition speakers_csv :: string where
  "speakers_csv = os_path_join output_dir ''speakers.csv''"

definition session_speakers_csv :: string where
  "session_speakers_csv = os_path_join output_dir ''session_speakers.csv''"

text \<open>
  The metadata summary (lines 95 to 100): the values are only printed, but each
  subscript can raise. They are evaluated in the order of the source.
\<close>

definition print_metadata :: "json \<Rightarrow> py_error + unit" where
  "print_metadata data =
     bind_err (py_getitem data ''metadata'') (\<lambda>metadata.
     bind_err (py_getitem metadata ''exportedAt'') (\<lambda>_.
     bind_err (bind_err (py_getitem metadata ''counts'') (\<lambda>c. py_getitem c ''sessions'')) (\<lambda>_.
     bind_err (bind_err (py_getitem metadata ''counts'') (\<lambda>c. py_getitem c ''speakers'')) (\<lambda>_.
     bind_err (bind_err (py_getitem metadata ''counts'') (\<lambda>c. py_getitem c ''sessionSpeakers'')) (\<lambda>_.
     Inr ())))))"

text \<open>
  \<^verbatim>\<open>main\<close>, from the files before the run to the files after it and the exception that
  ended it, if any. Console output is not modelled, nor is the directory that
  \<^verbatim>\<open>os.makedirs\<close> creates (the file system holds files only), nor a failure of the
  operating system to open or write a file.
\<close>

definition main :: "(string \<Rightarrow> py_error + json) \<Rightarrow> (json \<Rightarrow> string) \<Rightarrow> fs \<Rightarrow> fs \<times> py_error option" where
  "main json_load py_str files =
     (case load_json_data json_load json_file files of
        Inl e \<Rightarrow> (files, Some e)
      | Inr data \<Rightarrow>
     (case print_metadata data of
        Inl e \<Rightarrow> (files, Some e)
      | Inr _ \<Rightarrow>
     (case extract_sessions data of
        Inl e \<Rightarrow> (files, Some e)
      | Inr sessions \<Rightarrow>
     (case write_csv py_str sessions_csv sessions session_fields files of
        (files1, Some e) \<Rightarrow> (files1, Some e)
      | (files1, None) \<Rightarrow>
     (case extract_speakers data of
        Inl e \<Rightarrow> (files1, Some e)
      | Inr speakers \<Rightarrow>
     (case write_csv py_str speakers_csv speakers speaker_fields files1 of
        (files2, Some e) \<Rightarrow> (files2, Some e)
      | (files2, None) \<Rightarrow>
     (case extract_session_speakers data of
        Inl e \<Rightarrow> (files2, Some e)
      | Inr relationships \<Rightarrow>
          write_csv py_str session_speakers_csv relationships relationship_fields files2)))))))"

section \<open>Notions used to state the properties\<close>

text \<open>
  The text of a CSV file whose rows are flat records with exactly the field names as
  keys, in that order.
\<close>

definition csv_text :: "(json \<Rightarrow> string) \<Rightarrow> string list \<Rightarrow> flat list \<Rightarrow> string" where
  "csv_text py_str fieldnames rows =
     writeheader fieldnames @ concat (map (\<lambda>r. csv_row (map (csv_cell py_str) (map snd r))) rows)"

text \<open>The keys the extractors read by subscript, and those they read with a default.\<close>

definition session_required :: "string list" where
  "session_required = [''id'', ''title'', ''startTime'', ''endTime'', ''createdAt'']"

definition session_optional :: "string list" where
  "session_optional = [''description'', ''location'', ''track'', ''level'', ''sourceUrl'', ''lastUpdated'']"

definition speaker_optional :: "string list" where
  "speaker_optional = [''bio'', ''company'', ''role'', ''imageUrl'', ''linkedinUrl'', ''twitterUrl'',
     ''websiteUrl'', ''profileSummary'', ''companyProfile'', ''lastProfileSync'']"

text \<open>A value holds a chain of keys: each step is a dict with the next key.\<close>

fun has_path :: "json \<Rightarrow> string list \<Rightarrow> bool" where
  "has_path v [] = True"
| "has_path (JObj kvs) (k # ks) = (case map_of kvs k of None \<Rightarrow> False | Some w \<Rightarrow> has_path w ks)"
| "has_path _ (k # ks) = False"

text \<open>
  Splitting a string at a separator character, as Python's \<^verbatim>\<open>s.split(c)\<close> does: the
  empty string gives one empty piece. The script does not split; the round trip of the
  joined list fields is stated with it.
\<close>

fun split_on :: "char \<Rightarrow> string \<Rightarrow> string list" where
  "split_on c [] = [[]]"
| "split_on c (x # xs) =
     (if x = c then [] # split_on c xs
      else (case split_on c xs of [] \<Rightarrow> [[x]] | w # ws \<Rightarrow> (x # w) # ws))"

text \<open>
  Reading a comma-delimited text back into records. Outside quotes a comma ends a
  field and a line end (CR LF, CR or LF) ends a record; a field that starts with a
  quote runs to its closing quote, and a doubled quote inside it stands for one quote.
  The arguments are: whether the last character was CR, the field read so far, and the
  fields of the record read so far. The script does not read CSV; the number and the
  content of the rows of a written file are stated with this reader.
\<close>

fun csv_read :: "bool \<Rightarrow> string \<Rightarrow> string list \<Rightarrow> string \<Rightarrow> string list list"
  and csv_read_quoted :: "string \<Rightarrow> string list \<Rightarrow> string \<Rightarrow> string list list" where
  "csv_read cr f fs [] = (if f = [] \<and> fs = [] then [] else [fs @ [f]])"
| "csv_read cr f fs (c # cs) =
     (if c = CHR 0x0A then
        (if cr then csv_read False [] [] cs else (fs @ [f]) # csv_read False [] [] cs)
      else if c = CHR 0x0D then (fs @ [f]) # csv_read True [] [] cs
      else if c = CHR '','' then csv_read False [] (fs @ [f]) cs
      else if c = dquote \<and> f = [] then csv_read_quoted [] fs cs
      else csv_read False (f @ [c]) fs cs)"
| "csv_read_quoted f fs [] = [fs @ [f]]"
| "csv_read_quoted f fs [c] =
     (if c = dquote then csv_read False f fs [] else csv_read_quoted (f @ [c]) fs [])"
| "csv_read_quoted f fs (c # d # cs) =
     (if c = dquote then
        (if d = dquote then csv_read_quoted (f @ [dquote]) fs cs else csv_read False f fs (d # cs))
      else csv_read_quoted (f @ [c]) fs (d # cs))"

definition csv_records :: "string \<Rightarrow> string list list" where
  "csv_records text = csv_read False [] [] text"

text \<open>The texts of the cells of a flat record, in the order of its keys.\<close>

definition record_cells :: "(json \<Rightarrow> string) \<Rightarrow> flat \<Rightarrow> string list" where
  "record_cells py_str r = map (csv_cell py_str) (map snd r)"

text \<open>The inside of a quoted field: every quote doubled.\<close>

definition escape_quotes :: "string \<Rightarrow> string" where
  "escape_quotes s = concat (map (\<lambda>c. if c = dquote then [dquote, dquote] else [c]) s)"

subsection \<open>Example inputs\<close>

text \<open>
  Instances of the parameters: an empty file system, and a text for the values that
  are neither \<^verbatim>\<open>None\<close> nor a \<^verbatim>\<open>str\<close>, which the examples do not contain.
\<close>

definition no_files :: fs where
  "no_files p = None"

definition str_unused :: "json \<Rightarrow> string" where
  "str_unused v = []"

text \<open>The session of the end-to-end scenario, its flat record and the text of its file.\<close>

definition scenario_session :: json where
  "scenario_session = JObj [(''id'', JStr ''s1''), (''title'', JStr ''Talk''),
     (''startTime'', JStr ''T0''), (''endTime'', JStr ''T1''), (''createdAt'', JStr ''C0''),
     (''tags'', JArr [JStr ''ai'', JStr ''cloud''])]"

definition scenario_row :: flat where
  "scenario_row =
     [(''id'', JStr ''s1''), (''title'', JStr ''Talk''), (''description'', JStr []),
      (''startTime'', JStr ''T0''), (''endTime'', JStr ''T1''), (''location'', JStr []),
      (''track'', JStr []), (''level'', JStr []), (''tags'', JStr ''ai|cloud''),
      (''sourceUrl'', JStr []), (''lastUpdated'', JStr []), (''createdAt'', JStr ''C0'')]"

definition scenario_csv :: string where
  "scenario_csv =
     ''id,title,description,startTime,endTime,location,track,level,tags,sourceUrl,lastUpdated,createdAt'' @ crlf
     @ ''s1,Talk,,T0,T1,,,,ai|cloud,,,C0'' @ crlf"

text \<open>A complete document: one session, one speaker whose \<^verbatim>\<open>bio\<close> is null, one relationship.\<close>

definition example_metadata :: json where
  "example_metadata = JObj [(''exportedAt'', JStr ''2025-01-01''),
     (''counts'', JObj [(''sessions'', JInt 1), (''speakers'', JInt 1), (''sessionSpeakers'', JInt 1)])]"

definition example_speaker :: json where
  "example_speaker = JObj [(''id'', JStr ''p1''), (''name'', JStr ''Ann''), (''bio'', JNull),
     (''expertise'', JArr [JStr ''ml'']), (''createdAt'', JStr ''C1'')]"

definition example_speaker_row :: flat where
  "example_speaker_row =
     [(''id'', JStr ''p1''), (''name'', JStr ''Ann''), (''bio'', JNull), (''company'', JStr []),
      (''role'', JStr []), (''imageUrl'', JStr []), (''linkedinUrl'', JStr []),
      (''twitterUrl'', JStr []), (''websiteUrl'', JStr []), (''profileSummary'', JStr []),
      (''companyProfile'', JStr []), (''expertise'', JStr ''ml''), (''achievements'', JStr []),
      (''lastProfileSync'', JStr []), (''createdAt'', JStr ''C1'')]"

definition example_relationship :: json where
  "example_relationship = JObj [(''sessionId'', JStr ''s1''), (''speakerId'', JStr ''p1'')]"

definition example_relationship_row :: flat where
  "example_relationship_row = [(''sessionId'', JStr ''s1''), (''speakerId'', JStr ''p1'')]"

definition example_data :: json where
  "example_data = JObj [(''sessions'', JArr [scenario_session]),
                        (''speakers'', JArr [example_speaker]),
                        (''sessionSpeakers'', JArr [example_relationship])]"

definition example_doc :: json where
  "example_doc = JObj [(''metadata'', example_metadata), (''data'', example_data)]"

definition load_example :: "string \<Rightarrow> py_error + json" where
  "load_example text = Inr example_doc"

definition example_files :: fs where
  "example_files = no_files(json_file \<mapsto> [])"

text \<open>The same input file beside an output left by an earlier run.\<close>

definition old_files :: fs where
  "old_files = example_files(sessions_csv \<mapsto> ''stale'')"

text \<open>A document whose only speaker lacks \<^verbatim>\<open>name\<close>.\<close>

definition broken_speakers_data :: json where
  "broken_speakers_data = JObj [(''sessions'', JArr [scenario_session]),
                                (''speakers'', JArr [JObj [(''id'', JStr ''p1'')]]),
                                (''sessionSpeakers'', JArr [])]"

definition broken_speakers_doc :: json where
  "broken_speakers_doc = JObj [(''metadata'', example_metadata), (''data'', broken_speakers_data)]"

definition load_broken_speakers :: "string \<Rightarrow> py_error + json" where
  "load_broken_speakers text = Inr broken_speakers_doc"

text \<open>A document without \<^verbatim>\<open>metadata\<close>.\<close>

definition no_metadata_doc :: json where
  "no_metadata_doc = JObj [(''data'', example_data)]"

definition load_no_metadata :: "string \<Rightarrow> py_error + json" where
  "load_no_metadata text = Inr no_metadata_doc"

text \<open>A document whose second session lacks \<^verbatim>\<open>title\<close>, and one whose first session does.\<close>

definition untitled_b :: "(string \<times> json) list" where
  "untitled_b = [(''id'', JStr ''b'')]"

definition missing_title_data :: json where
  "missing_title_data = JObj [(''sessions'', JArr [scenario_session, JObj untitled_b])]"

definition missing_title_doc :: json where
  "missing_title_doc = JObj [(''metadata'', example_metadata), (''data'', missing_title_data)]"

definition load_missing_title :: "string \<Rightarrow> py_error + json" where
  "load_missing_title text = Inr missing_title_doc"

definition missing_title_first_doc :: json where
  "missing_title_first_doc = JObj [(''data'', JObj [(''sessions'', JArr [JObj [(''id'', JStr ''a'')]])])]"

text \<open>
  A document with three elements in each array: not in sorted order, the first element
  repeated, and a session title that holds a comma, a line break and a quote.
\<close>

definition second_session :: json where
  "second_session = JObj [(''id'', JStr ''s0''), (''title'', JStr (''A,B'' @ crlf @ [dquote])),
     (''startTime'', JStr ''T2''), (''endTime'', JStr ''T3''), (''createdAt'', JStr ''C2'')]"

definition second_row :: flat where
  "second_row =
     [(''id'', JStr ''s0''), (''title'', JStr (''A,B'' @ crlf @ [dquote])), (''description'', JStr []),
      (''startTime'', JStr ''T2''), (''endTime'', JStr ''T3''), (''location'', JStr []),
      (''track'', JStr []), (''level'', JStr []), (''tags'', JStr []),
      (''sourceUrl'', JStr []), (''lastUpdated'', JStr []), (''createdAt'', JStr ''C2'')]"

definition second_speaker :: json where
  "second_speaker = JObj [(''id'', JStr ''p0''), (''name'', JStr ''Bob''), (''createdAt'', JStr ''C3'')]"

definition second_speaker_row :: flat where
  "second_speaker_row =
     [(''id'', JStr ''p0''), (''name'', JStr ''Bob''), (''bio'', JStr []), (''company'', JStr []),
      (''role'', JStr []), (''imageUrl'', JStr []), (''linkedinUrl'', JStr []),
      (''twitterUrl'', JStr []), (''websiteUrl'', JStr []), (''profileSummary'', JStr []),
      (''companyProfile'', JStr []), (''expertise'', JStr []), (''achievements'', JStr []),
      (''lastProfileSync'', JStr []), (''createdAt'', JStr ''C3'')]"

definition second_relationship :: json where
  "second_relationship = JObj [(''sessionId'', JStr ''s0''), (''speakerId'', JStr ''p1'')]"

definition second_relationship_row :: flat where
  "second_relationship_row = [(''sessionId'', JStr ''s0''), (''speakerId'', JStr ''p1'')]"

definition ordered_data :: json where
  "ordered_data = JObj
     [(''sessions'', JArr [scenario_session, second_session, scenario_session]),
      (''speakers'', JArr [example_speaker, second_speaker, example_speaker]),
      (''sessionSpeakers'', JArr [example_relationship, second_relationship, example_relationship])]"

definition ordered_doc :: json where
  "ordered_doc = JObj [(''metadata'', example_metadata), (''data'', ordered_data)]"

definition load_ordered :: "string \<Rightarrow> py_error + json" where
  "load_ordered text = Inr ordered_doc"

section \<open>Auxiliary facts\<close>

lemma bind_err_Inl [simp]: "bind_err (Inl e) f = Inl e"
  by (simp add: bind_err_def)

lemma bind_err_Inr [simp]: "bind_err (Inr x) f = f x"
  by (simp add: bind_err_def)

lemma bind_err_eq_Inr: "bind_err m f = Inr y \<longleftrightarrow> (\<exists>x. m = Inr x \<and> f x = Inr y)"
  by (cases m) simp_all

lemma for_append_Inr_D: "for_append f xs = Inr ys \<Longrightarrow> list_all2 (\<lambda>x y. f x = Inr y) xs ys"
  by (induction xs arbitrary: ys) (auto split: sum.splits)

lemma for_append_Inr_I: "list_all2 (\<lambda>x y. f x = Inr y) xs ys \<Longrightarrow> for_append f xs = Inr ys"
  by (induction xs ys rule: list_all2_induct) auto

lemma for_append_fails: "x \<in> set xs \<Longrightarrow> f x = Inl e \<Longrightarrow> \<exists>e'. for_append f xs = Inl e'"
  by (induction xs) (auto split: sum.splits)

lemma for_append_first_error:
  "list_all2 (\<lambda>x y. f x = Inr y) xs ys \<Longrightarrow> f x = Inl e \<Longrightarrow> for_append f (xs @ x # zs) = Inl e"
  by (induction xs ys rule: list_all2_induct) auto

lemma dict_display_keys: "dict_display kms = Inr r \<Longrightarrow> map fst r = map fst kms"
  by (induction kms arbitrary: r) (auto split: sum.splits)

lemma map_of_row: "distinct (map fst r) \<Longrightarrow> map (\<lambda>k. case map_of r k of None \<Rightarrow> d | Some v \<Rightarrow> v) (map fst r) = map snd r"
proof (induction r)
  case Nil
  show ?case by simp
next
  case (Cons kv r)
  obtain k v where kv: "kv = (k, v)" by (cases kv)
  from Cons.prems kv have nk: "k \<notin> fst ` set r" and d: "distinct (map fst r)" by auto
  have "map (\<lambda>k'. case map_of (kv # r) k' of None \<Rightarrow> d | Some v \<Rightarrow> v) (map fst r)
      = map (\<lambda>k'. case map_of r k' of None \<Rightarrow> d | Some v \<Rightarrow> v) (map fst r)"
    using nk kv by (intro map_cong) auto
  with Cons.IH [OF d] kv show ?case by simp
qed

lemma dict_to_list_exact:
  "map fst r = fieldnames \<Longrightarrow> distinct fieldnames \<Longrightarrow> dict_to_list fieldnames r = Inr (map snd r)"
  using map_of_row [of r "JStr []"]
  by (auto simp: dict_to_list_def list_ex_iff)

lemma writerows_ok:
  "list_all (\<lambda>r. list_all (\<lambda>k. k \<in> set fieldnames) (map fst r)) rows \<Longrightarrow>
   writerows py_str fieldnames rows =
     (concat (map (\<lambda>r. csv_row (map (\<lambda>k. case map_of r k of None \<Rightarrow> [] | Some v \<Rightarrow> csv_cell py_str v) fieldnames)) rows), None)"
proof (induction rows)
  case Nil
  show ?case by simp
next
  case (Cons r rows)
  then have ok: "dict_to_list fieldnames r = Inr (map (\<lambda>k. case map_of r k of None \<Rightarrow> JStr [] | Some v \<Rightarrow> v) fieldnames)"
    by (auto simp: dict_to_list_def list_ex_iff list_all_iff)
  have cells: "map (csv_cell py_str) (map (\<lambda>k. case map_of r k of None \<Rightarrow> JStr [] | Some v \<Rightarrow> v) fieldnames)
     = map (\<lambda>k. case map_of r k of None \<Rightarrow> [] | Some v \<Rightarrow> csv_cell py_str v) fieldnames"
    by (induction fieldnames) (auto split: option.splits)
  from Cons show ?case by (simp add: ok cells del: map_map)
qed

lemma writerows_extra:
  "\<not> list_all (\<lambda>r. list_all (\<lambda>k. k \<in> set fieldnames) (map fst r)) rows \<Longrightarrow>
   snd (writerows py_str fieldnames rows) = Some ValueError"
proof (induction rows)
  case Nil
  then show ?case by simp
next
  case (Cons r rows)
  show ?case
  proof (cases "list_all (\<lambda>k. k \<in> set fieldnames) (map fst r)")
    case True
    with Cons show ?thesis
      by (auto simp: dict_to_list_def list_ex_iff list_all_iff split: prod.splits)
  next
    case False
    then have "dict_to_list fieldnames r = Inl ValueError"
      by (auto simp: dict_to_list_def list_ex_iff list_all_iff)
    then show ?thesis by simp
  qed
qed


lemma write_csv_eq:
  "write_csv py_str p rows fn files =
     (files(p \<mapsto> writeheader fn @ fst (writerows py_str fn rows)), snd (writerows py_str fn rows))"
  by (simp add: write_csv_def split: prod.splits)

lemma paths_distinct:
  "sessions_csv \<noteq> speakers_csv" "sessions_csv \<noteq> session_speakers_csv"
  "speakers_csv \<noteq> session_speakers_csv"
  "json_file \<noteq> sessions_csv" "json_file \<noteq> speakers_csv" "json_file \<noteq> session_speakers_csv"
  by (simp_all add: sessions_csv_def speakers_csv_def session_speakers_csv_def json_file_def
        os_path_join_def output_dir_def)

lemma session_record_keys: "session_record x = Inr r \<Longrightarrow> map fst r = session_fields"
  unfolding session_record_def by (drule dict_display_keys) (simp add: session_fields_def)

lemma speaker_record_keys: "speaker_record x = Inr r \<Longrightarrow> map fst r = speaker_fields"
  unfolding speaker_record_def by (drule dict_display_keys) (simp add: speaker_fields_def)

lemma relationship_record_keys: "relationship_record x = Inr r \<Longrightarrow> map fst r = relationship_fields"
  unfolding relationship_record_def by (drule dict_display_keys) (simp add: relationship_fields_def)

lemma fields_distinct:
  "distinct session_fields" "distinct speaker_fields" "distinct relationship_fields"
  by (simp_all add: session_fields_def speaker_fields_def relationship_fields_def)

lemma writerows_exact:
  "list_all (\<lambda>r. map fst r = fieldnames) rows \<Longrightarrow> distinct fieldnames \<Longrightarrow>
   writerows py_str fieldnames rows =
     (concat (map (\<lambda>r. csv_row (map (csv_cell py_str) (map snd r))) rows), None)"
  by (induction rows) (simp_all add: dict_to_list_exact del: map_map)

lemma for_append_all:
  "for_append f xs = Inr ys \<Longrightarrow> (\<And>x y. f x = Inr y \<Longrightarrow> P y) \<Longrightarrow> list_all P ys"
  by (induction xs arbitrary: ys) (auto split: sum.splits)

lemma extract_sessions_rows:
  "extract_sessions data = Inr rows \<Longrightarrow> list_all (\<lambda>r. map fst r = session_fields) rows"
  by (auto simp: extract_sessions_def bind_err_eq_Inr elim!: for_append_all intro: session_record_keys)

lemma extract_speakers_rows:
  "extract_speakers data = Inr rows \<Longrightarrow> list_all (\<lambda>r. map fst r = speaker_fields) rows"
  by (auto simp: extract_speakers_def bind_err_eq_Inr elim!: for_append_all intro: speaker_record_keys)

lemma extract_session_speakers_rows:
  "extract_session_speakers data = Inr rows \<Longrightarrow> list_all (\<lambda>r. map fst r = relationship_fields) rows"
  by (auto simp: extract_session_speakers_def bind_err_eq_Inr elim!: for_append_all intro: relationship_record_keys)

lemma write_csv_exact:
  "list_all (\<lambda>r. map fst r = fieldnames) rows \<Longrightarrow> distinct fieldnames \<Longrightarrow>
   write_csv py_str p rows fieldnames files = (files(p \<mapsto> csv_text py_str fieldnames rows), None)"
  by (simp add: write_csv_def writerows_exact csv_text_def)

lemma write_sessions:
  "extract_sessions data = Inr rows \<Longrightarrow>
   write_csv py_str p rows session_fields files = (files(p \<mapsto> csv_text py_str session_fields rows), None)"
  by (simp add: write_csv_exact extract_sessions_rows fields_distinct)

lemma write_speakers:
  "extract_speakers data = Inr rows \<Longrightarrow>
   write_csv py_str p rows speaker_fields files = (files(p \<mapsto> csv_text py_str speaker_fields rows), None)"
  by (simp add: write_csv_exact extract_speakers_rows fields_distinct)

lemma write_relationships:
  "extract_session_speakers data = Inr rows \<Longrightarrow>
   write_csv py_str p rows relationship_fields files = (files(p \<mapsto> csv_text py_str relationship_fields rows), None)"
  by (simp add: write_csv_exact extract_session_speakers_rows fields_distinct)

text \<open>What a run does once the document is loaded, stage by stage.\<close>

lemma main_load_fails:
  "load_json_data json_load json_file files = Inl e \<Longrightarrow> main json_load py_str files = (files, Some e)"
  by (simp add: main_def)

lemma main_metadata_fails:
  "load_json_data json_load json_file files = Inr data \<Longrightarrow> print_metadata data = Inl e \<Longrightarrow>
   main json_load py_str files = (files, Some e)"
  by (simp add: main_def)

lemma main_sessions_fail:
  "load_json_data json_load json_file files = Inr data \<Longrightarrow> print_metadata data = Inr u \<Longrightarrow>
   extract_sessions data = Inl e \<Longrightarrow>
   main json_load py_str files = (files, Some e)"
  by (simp add: main_def)

lemma main_speakers_fail:
  "load_json_data json_load json_file files = Inr data \<Longrightarrow> print_metadata data = Inr u \<Longrightarrow>
   extract_sessions data = Inr ss \<Longrightarrow> extract_speakers data = Inl e \<Longrightarrow>
   main json_load py_str files =
     (files(sessions_csv \<mapsto> csv_text py_str session_fields ss), Some e)"
  by (simp add: main_def write_sessions)

lemma main_relationships_fail:
  "load_json_data json_load json_file files = Inr data \<Longrightarrow> print_metadata data = Inr u \<Longrightarrow>
   extract_sessions data = Inr ss \<Longrightarrow> extract_speakers data = Inr sp \<Longrightarrow>
   extract_session_speakers data = Inl e \<Longrightarrow>
   main json_load py_str files =
     (files(sessions_csv \<mapsto> csv_text py_str session_fields ss,
            speakers_csv \<mapsto> csv_text py_str speaker_fields sp), Some e)"
  by (simp add: main_def write_sessions write_speakers)

lemma main_succeeds:
  "load_json_data json_load json_file files = Inr data \<Longrightarrow> print_metadata data = Inr u \<Longrightarrow>
   extract_sessions data = Inr ss \<Longrightarrow> extract_speakers data = Inr sp \<Longrightarrow>
   extract_session_speakers data = Inr rel \<Longrightarrow>
   main json_load py_str files =
     (files(sessions_csv \<mapsto> csv_text py_str session_fields ss,
            speakers_csv \<mapsto> csv_text py_str speaker_fields sp,
            session_speakers_csv \<mapsto> csv_text py_str relationship_fields rel), None)"
  by (simp add: main_def write_sessions write_speakers write_relationships)

subsection \<open>Values and errors of the primitives\<close>

lemma py_getitem_Inr: "py_getitem v k = Inr w \<longleftrightarrow> (\<exists>kvs. v = JObj kvs \<and> map_of kvs k = Some w)"
  by (cases v) (auto split: option.splits)

lemma has_path_Cons: "has_path v (k # ks) \<longleftrightarrow> (\<exists>w. py_getitem v k = Inr w \<and> has_path w ks)"
  by (cases v) (auto split: option.splits)

lemma bind_err_eq_Inl: "bind_err m f = Inl e \<longleftrightarrow> m = Inl e \<or> (\<exists>x. m = Inr x \<and> f x = Inl e)"
  by (cases m) simp_all

lemma print_metadata_ok:
  "print_metadata data = Inr u \<longleftrightarrow>
     has_path data [''metadata'', ''exportedAt''] \<and>
     has_path data [''metadata'', ''counts'', ''sessions''] \<and>
     has_path data [''metadata'', ''counts'', ''speakers''] \<and>
     has_path data [''metadata'', ''counts'', ''sessionSpeakers'']"
  by (auto simp: print_metadata_def has_path_Cons bind_err_eq_Inr)

lemma has_path_metadata:
  "has_path data [''metadata'', ''exportedAt''] \<Longrightarrow> has_path data [''metadata'']"
  by (auto simp: has_path_Cons)

lemma py_iter_error: "py_iter v = Inl e \<Longrightarrow> e = TypeError"
  by (cases v) simp_all

lemma str_join_error: "str_join sep v = Inl e \<Longrightarrow> e = TypeError"
  by (auto simp: str_join_def bind_err_eq_Inl split: if_splits dest: py_iter_error)

lemma joined_field_error: "joined_field (JObj kvs) k = Inl e \<Longrightarrow> e = TypeError"
  by (auto simp: joined_field_def bind_err_eq_Inl split: if_splits dest: str_join_error)

lemma joined_field_cases:
  "joined_field (JObj kvs) k = Inl TypeError \<or> (\<exists>s. joined_field (JObj kvs) k = Inr (JStr s))"
proof (cases "joined_field (JObj kvs) k")
  case (Inl e)
  then show ?thesis using joined_field_error by blast
next
  case (Inr v)
  then show ?thesis
    by (auto simp: joined_field_def bind_err_eq_Inr split: if_splits)
qed

lemma session_record_missing:
  assumes "k \<in> set session_required" and "map_of kvs k = None"
  shows "(\<exists>k'. k' \<in> set session_required \<and> map_of kvs k' = None \<and>
            session_record (JObj kvs) = Inl (KeyError k')) \<or>
         (session_record (JObj kvs) = Inl TypeError \<and> k = ''createdAt'')"
proof -
  consider (e) "joined_field (JObj kvs) ''tags'' = Inl TypeError"
    | (s) s where "joined_field (JObj kvs) ''tags'' = Inr (JStr s)"
    using joined_field_cases by blast
  then show ?thesis
  proof cases
    case e
    with assms show ?thesis
      by (auto simp: session_record_def session_required_def split: option.splits)
  next
    case s
    with assms show ?thesis
      by (auto simp: session_record_def session_required_def split: option.splits)
  qed
qed

lemma session_record_optional:
  assumes "session_record (JObj kvs) = Inr r" and "k \<in> set session_optional"
  shows "map_of r k = Some (case map_of kvs k of None \<Rightarrow> JStr [] | Some v \<Rightarrow> v)"
  using assms
  by (auto simp: session_record_def session_optional_def split: sum.splits)

lemma speaker_record_optional:
  assumes "speaker_record (JObj kvs) = Inr r" and "k \<in> set speaker_optional"
  shows "map_of r k = Some (case map_of kvs k of None \<Rightarrow> JStr [] | Some v \<Rightarrow> v)"
  using assms
  by (auto simp: speaker_record_def speaker_optional_def split: sum.splits)

lemma split_on_single: "c \<notin> set s \<Longrightarrow> split_on c s = [s]"
  by (induction s) auto

lemma split_on_append: "c \<notin> set s \<Longrightarrow> split_on c (s @ c # t) = s # split_on c t"
  by (induction s) auto

lemma split_join:
  "items \<noteq> [] \<Longrightarrow> list_all (\<lambda>s. c \<notin> set s) items \<Longrightarrow> split_on c (join_strs [c] items) = items"
proof (induction "[c]" items rule: join_strs.induct)
  case 1
  then show ?case by simp
next
  case (2 s)
  then show ?case by (simp add: split_on_single)
next
  case (3 s t ss)
  then show ?case by (simp add: split_on_append)
qed

lemma str_join_strings: "str_join sep (JArr (map JStr items)) = Inr (join_strs sep items)"
  by (simp add: str_join_def list_all_iff comp_def)

subsection \<open>The reader reads back what the writer writes\<close>

lemma dq [simp]: "dquote \<noteq> CHR 0x0A" "dquote \<noteq> CHR 0x0D" "dquote \<noteq> CHR '',''"
  by (simp_all add: dquote_def)

lemma quoted_step: "xs \<noteq> [] \<Longrightarrow> c \<noteq> dquote \<Longrightarrow> csv_read_quoted f fs (c # xs) = csv_read_quoted (f @ [c]) fs xs"
  by (cases xs) simp_all

lemma quoted_body:
  "rest \<noteq> [] \<Longrightarrow> hd rest \<noteq> dquote \<Longrightarrow>
   csv_read_quoted f fs (escape_quotes s @ dquote # rest) = csv_read False (f @ s) fs rest"
proof (induction s arbitrary: f)
  case Nil
  then show ?case by (cases rest) (simp_all add: escape_quotes_def)
next
  case (Cons c s)
  show ?case
  proof (cases "c = dquote")
    case True
    with Cons show ?thesis by (simp add: escape_quotes_def)
  next
    case False
    have "escape_quotes (c # s) @ dquote # rest = c # (escape_quotes s @ dquote # rest)"
      using False by (simp add: escape_quotes_def)
    with False Cons show ?thesis by (simp add: quoted_step)
  qed
qed

lemma plain_body:
  "\<not> needs_quote s \<Longrightarrow> csv_read False f fs (s @ rest) = csv_read False (f @ s) fs rest"
  by (induction s arbitrary: f) (auto simp: needs_quote_def)

lemma read_field:
  assumes "rest \<noteq> []" and "hd rest \<noteq> dquote"
  shows "csv_read False [] fs (csv_field s @ rest) = csv_read False s fs rest"
proof (cases "needs_quote s")
  case True
  then have "csv_field s @ rest = dquote # (escape_quotes s @ dquote # rest)"
    by (simp add: csv_field_def escape_quotes_def)
  with quoted_body [OF assms, of "[]" fs s] show ?thesis by simp
next
  case False
  with plain_body [of s "[]" fs rest] show ?thesis by (simp add: csv_field_def)
qed

lemma read_joined:
  "cells \<noteq> [] \<Longrightarrow>
   csv_read False [] fs (join_strs '','' (map csv_field cells) @ crlf @ more) =
     (fs @ cells) # csv_read False [] [] more"
proof (induction cells arbitrary: fs)
  case Nil
  then show ?case by simp
next
  case (Cons s cells)
  show ?case
  proof (cases cells)
    case Nil
    have "csv_read False [] fs (csv_field s @ crlf @ more) = csv_read False s fs (crlf @ more)"
      by (rule read_field) (simp_all add: crlf_def dquote_def)
    with Nil show ?thesis by (simp add: crlf_def)
  next
    case (Cons t ts)
    have "csv_read False [] fs (csv_field s @ '','' @ join_strs '','' (map csv_field cells) @ crlf @ more)
        = csv_read False s fs ('','' @ join_strs '','' (map csv_field cells) @ crlf @ more)"
      by (rule read_field) (simp_all add: dquote_def)
    also have "\<dots> = csv_read False [] (fs @ [s]) (join_strs '','' (map csv_field cells) @ crlf @ more)"
      by simp
    also have "\<dots> = ((fs @ [s]) @ cells) # csv_read False [] [] more"
      using Cons by (intro Cons.IH) simp
    finally show ?thesis using Cons by simp
  qed
qed

lemma read_row:
  "cells \<noteq> [] \<Longrightarrow> csv_read False [] [] (csv_row cells @ more) = cells # csv_read False [] [] more"
proof (cases "cells = [[]]")
  case True
  then show ?thesis by (simp add: csv_row_def crlf_def dquote_def)
next
  case False
  assume "cells \<noteq> []"
  from read_joined [OF this, of "[]" more] False show ?thesis by (simp add: csv_row_def)
qed

lemma read_rows:
  "list_all (\<lambda>cells. cells \<noteq> []) rows \<Longrightarrow> csv_read False [] [] (concat (map csv_row rows)) = rows"
  by (induction rows) (simp_all add: read_row)

lemma csv_records_text:
  assumes "fieldnames \<noteq> []" and "list_all (\<lambda>r. map fst r = fieldnames) rows"
  shows "csv_records (csv_text py_str fieldnames rows) = fieldnames # map (record_cells py_str) rows"
proof -
  have ne: "list_all (\<lambda>cells. cells \<noteq> []) (map (record_cells py_str) rows)"
    using assms by (auto simp: list_all_iff record_cells_def)
  have "csv_text py_str fieldnames rows = csv_row fieldnames @ concat (map csv_row (map (record_cells py_str) rows))"
    by (simp add: csv_text_def writeheader_def record_cells_def comp_def)
  with read_row [OF assms(1)] read_rows [OF ne] show ?thesis
    by (simp add: csv_records_def)
qed

lemma fields_nonempty:
  "session_fields \<noteq> []" "speaker_fields \<noteq> []" "relationship_fields \<noteq> []"
  by (simp_all add: session_fields_def speaker_fields_def relationship_fields_def)

subsection \<open>Runs of the driver\<close>

lemma main_sessions_written:
  assumes "load_json_data json_load json_file files = Inr data"
    and "print_metadata data = Inr u" and "extract_sessions data = Inr ss"
  shows "fst (main json_load py_str files) sessions_csv = Some (csv_text py_str session_fields ss)"
proof (cases "extract_speakers data")
  case (Inl e)
  with assms show ?thesis by (simp add: main_speakers_fail)
next
  case sp: (Inr sp)
  show ?thesis
  proof (cases "extract_session_speakers data")
    case (Inl e)
    with assms sp show ?thesis by (simp add: main_relationships_fail paths_distinct)
  next
    case (Inr rel)
    with assms sp show ?thesis by (simp add: main_succeeds paths_distinct)
  qed
qed

lemma main_success_D:
  assumes "load_json_data json_load json_file files = Inr data"
    and "snd (main json_load py_str files) = None"
  shows "\<exists>ss sp rel. extract_sessions data = Inr ss \<and> extract_speakers data = Inr sp \<and>
           extract_session_speakers data = Inr rel \<and>
           main json_load py_str files =
             (files(sessions_csv \<mapsto> csv_text py_str session_fields ss,
                    speakers_csv \<mapsto> csv_text py_str speaker_fields sp,
                    session_speakers_csv \<mapsto> csv_text py_str relationship_fields rel), None)"
proof -
  obtain u where md: "print_metadata data = Inr u"
    using assms by (cases "print_metadata data") (simp_all add: main_metadata_fails)
  obtain ss where ss: "extract_sessions data = Inr ss"
    using assms md by (cases "extract_sessions data") (simp_all add: main_sessions_fail)
  obtain sp where sp: "extract_speakers data = Inr sp"
    using assms md ss by (cases "extract_speakers data") (simp_all add: main_speakers_fail)
  obtain rel where rel: "extract_session_speakers data = Inr rel"
    using assms md ss sp by (cases "extract_session_speakers data") (simp_all add: main_relationships_fail)
  from main_succeeds [OF assms(1) md ss sp rel] ss sp rel show ?thesis by blast
qed

lemma load_unchanged:
  "load_json_data json_load json_file (files(sessions_csv \<mapsto> a)) = load_json_data json_load json_file files"
  "load_json_data json_load json_file (files(sessions_csv \<mapsto> a, speakers_csv \<mapsto> b)) = load_json_data json_load json_file files"
  "load_json_data json_load json_file (files(sessions_csv \<mapsto> a, speakers_csv \<mapsto> b, session_speakers_csv \<mapsto> c)) = load_json_data json_load json_file files"
  using paths_distinct by (simp_all add: load_json_data_def)

lemma main_idempotent:
  "main json_load py_str (fst (main json_load py_str files)) = main json_load py_str files"
proof (cases "load_json_data json_load json_file files")
  case (Inl e)
  then show ?thesis by (simp add: main_load_fails)
next
  case data: (Inr data)
  show ?thesis
  proof (cases "print_metadata data")
    case (Inl e)
    with data show ?thesis by (simp add: main_metadata_fails)
  next
    case md: (Inr u)
    show ?thesis
    proof (cases "extract_sessions data")
      case (Inl e)
      with data md show ?thesis by (simp add: main_sessions_fail)
    next
      case ss: (Inr ss)
      show ?thesis
      proof (cases "extract_speakers data")
        case (Inl e)
        have 1: "main json_load py_str files = (files(sessions_csv \<mapsto> csv_text py_str session_fields ss), Some e)"
          using data md ss Inl by (rule main_speakers_fail)
        have "main json_load py_str (files(sessions_csv \<mapsto> csv_text py_str session_fields ss))
            = (files(sessions_csv \<mapsto> csv_text py_str session_fields ss, sessions_csv \<mapsto> csv_text py_str session_fields ss), Some e)"
          using md ss Inl by (intro main_speakers_fail) (simp_all add: load_unchanged data)
        with 1 show ?thesis by simp
      next
        case sp: (Inr sp)
        show ?thesis
        proof (cases "extract_session_speakers data")
          case (Inl e)
          let ?f = "files(sessions_csv \<mapsto> csv_text py_str session_fields ss, speakers_csv \<mapsto> csv_text py_str speaker_fields sp)"
          have 1: "main json_load py_str files = (?f, Some e)"
            using data md ss sp Inl by (rule main_relationships_fail)
          have "main json_load py_str ?f
            = (?f(sessions_csv \<mapsto> csv_text py_str session_fields ss, speakers_csv \<mapsto> csv_text py_str speaker_fields sp), Some e)"
            using md ss sp Inl by (intro main_relationships_fail) (simp_all add: load_unchanged data)
          moreover have "?f(sessions_csv \<mapsto> csv_text py_str session_fields ss, speakers_csv \<mapsto> csv_text py_str speaker_fields sp) = ?f"
            by (rule ext) simp
          ultimately show ?thesis using 1 by simp
        next
          case (Inr rel)
          let ?f = "files(sessions_csv \<mapsto> csv_text py_str session_fields ss, speakers_csv \<mapsto> csv_text py_str speaker_fields sp,
             session_speakers_csv \<mapsto> csv_text py_str relationship_fields rel)"
          have 1: "main json_load py_str files = (?f, None)"
            using data md ss sp Inr by (rule main_succeeds)
          have "main json_load py_str ?f
            = (?f(sessions_csv \<mapsto> csv_text py_str session_fields ss, speakers_csv \<mapsto> csv_text py_str speaker_fields sp,
                  session_speakers_csv \<mapsto> csv_text py_str relationship_fields rel), None)"
            using md ss sp Inr by (intro main_succeeds) (simp_all add: load_unchanged data)
          moreover have "?f(sessions_csv \<mapsto> csv_text py_str session_fields ss, speakers_csv \<mapsto> csv_text py_str speaker_fields sp,
                  session_speakers_csv \<mapsto> csv_text py_str relationship_fields rel) = ?f"
            by (rule ext) simp
          ultimately show ?thesis using 1 by simp
        qed
      qed
    qed
  qed
qed

lemma main_same_status:
  assumes "files2 json_file = files json_file"
  shows "snd (main json_load py_str files2) = snd (main json_load py_str files)"
proof -
  have L: "load_json_data json_load json_file files2 = load_json_data json_load json_file files"
    using assms by (simp add: load_json_data_def)
  show ?thesis
  proof (cases "load_json_data json_load json_file files")
    case (Inl e)
    with L show ?thesis by (simp add: main_load_fails)
  next
    case data: (Inr data)
    with L have data2: "load_json_data json_load json_file files2 = Inr data" by simp
    show ?thesis
    proof (cases "print_metadata data")
      case (Inl e)
      with data data2 show ?thesis by (simp add: main_metadata_fails)
    next
      case md: (Inr u)
      show ?thesis
      proof (cases "extract_sessions data")
        case (Inl e)
        with data data2 md show ?thesis by (simp add: main_sessions_fail)
      next
        case ss: (Inr ss)
        show ?thesis
        proof (cases "extract_speakers data")
          case (Inl e)
          with data data2 md ss show ?thesis by (simp add: main_speakers_fail)
        next
          case sp: (Inr sp)
          show ?thesis
          proof (cases "extract_session_speakers data")
            case (Inl e)
            with data data2 md ss sp show ?thesis by (simp add: main_relationships_fail)
          next
            case (Inr rel)
            with data data2 md ss sp show ?thesis by (simp add: main_succeeds)
          qed
        qed
      qed
    qed
  qed
qed

lemma main_same_outputs:
  assumes "files2 json_file = files json_file"
    and "snd (main json_load py_str files) = None"
  shows "fst (main json_load py_str files2) sessions_csv = fst (main json_load py_str files) sessions_csv \<and>
         fst (main json_load py_str files2) speakers_csv = fst (main json_load py_str files) speakers_csv \<and>
         fst (main json_load py_str files2) session_speakers_csv = fst (main json_load py_str files) session_speakers_csv"
proof -
  have L: "load_json_data json_load json_file files2 = load_json_data json_load json_file files"
    using assms(1) by (simp add: load_json_data_def)
  obtain data where data: "load_json_data json_load json_file files = Inr data"
    using assms(2) by (cases "load_json_data json_load json_file files") (simp_all add: main_load_fails)
  from main_success_D [OF data assms(2)] obtain ss sp rel where
    ex: "extract_sessions data = Inr ss" "extract_speakers data = Inr sp" "extract_session_speakers data = Inr rel"
    and m: "main json_load py_str files =
             (files(sessions_csv \<mapsto> csv_text py_str session_fields ss,
                    speakers_csv \<mapsto> csv_text py_str speaker_fields sp,
                    session_speakers_csv \<mapsto> csv_text py_str relationship_fields rel), None)"
    by blast
  from data L have data2: "load_json_data json_load json_file files2 = Inr data" by simp
  have "snd (main json_load py_str files2) = None"
    using main_same_status [of files2 files json_load py_str] assms by simp
  from main_success_D [OF data2 this] ex have
    "main json_load py_str files2 =
             (files2(sessions_csv \<mapsto> csv_text py_str session_fields ss,
                    speakers_csv \<mapsto> csv_text py_str speaker_fields sp,
                    session_speakers_csv \<mapsto> csv_text py_str relationship_fields rel), None)"
    by auto
  with m paths_distinct show ?thesis by simp
qed

subsection \<open>The example inputs evaluated\<close>

lemma scenario_record: "session_record scenario_session = Inr scenario_row"
  by (simp add: session_record_def scenario_session_def scenario_row_def joined_field_def str_join_def)

lemma scenario_text: "csv_text py_str session_fields [scenario_row] = scenario_csv"
  by (simp add: csv_text_def writeheader_def session_fields_def scenario_row_def scenario_csv_def
        csv_row_def csv_field_def needs_quote_def dquote_def crlf_def)

lemma example_speaker_record: "speaker_record example_speaker = Inr example_speaker_row"
  by (simp add: speaker_record_def example_speaker_def example_speaker_row_def joined_field_def
        str_join_def)

lemma example_relationship_record:
  "relationship_record example_relationship = Inr example_relationship_row"
  by (simp add: relationship_record_def example_relationship_def example_relationship_row_def)

lemma example_load: "load_json_data load_example json_file example_files = Inr example_doc"
  by (simp add: load_json_data_def example_files_def load_example_def)

lemma example_metadata_ok: "print_metadata example_doc = Inr ()"
  by (simp add: print_metadata_def example_doc_def example_metadata_def)

lemma example_doc_data: "py_getitem example_doc ''data'' = Inr example_data"
  by (simp add: example_doc_def)

lemma example_data_arrays:
  "py_getitem example_data ''sessions'' = Inr (JArr [scenario_session])"
  "py_getitem example_data ''speakers'' = Inr (JArr [example_speaker])"
  "py_getitem example_data ''sessionSpeakers'' = Inr (JArr [example_relationship])"
  by (simp_all add: example_data_def)

lemma example_sessions: "extract_sessions example_doc = Inr [scenario_row]"
  by (simp add: extract_sessions_def example_doc_data example_data_arrays scenario_record)

lemma example_speakers: "extract_speakers example_doc = Inr [example_speaker_row]"
  by (simp add: extract_speakers_def example_doc_data example_data_arrays example_speaker_record)

lemma example_relationships: "extract_session_speakers example_doc = Inr [example_relationship_row]"
  by (simp add: extract_session_speakers_def example_doc_data example_data_arrays
        example_relationship_record)

lemma example_run:
  "main load_example str_unused example_files =
     (example_files(sessions_csv \<mapsto> csv_text str_unused session_fields [scenario_row],
                    speakers_csv \<mapsto> csv_text str_unused speaker_fields [example_speaker_row],
                    session_speakers_csv \<mapsto> csv_text str_unused relationship_fields [example_relationship_row]),
      None)"
  by (rule main_succeeds [OF example_load example_metadata_ok example_sessions example_speakers
        example_relationships])

lemma example_run_ok: "snd (main load_example str_unused example_files) = None"
  by (simp add: example_run)

lemma old_files_input: "old_files json_file = example_files json_file"
  using paths_distinct by (simp add: old_files_def)

lemma broken_load:
  "load_json_data load_broken_speakers json_file example_files = Inr broken_speakers_doc"
  by (simp add: load_json_data_def example_files_def load_broken_speakers_def)

lemma broken_metadata: "print_metadata broken_speakers_doc = Inr ()"
  by (simp add: print_metadata_def broken_speakers_doc_def example_metadata_def)

lemma broken_sessions: "extract_sessions broken_speakers_doc = Inr [scenario_row]"
  by (simp add: extract_sessions_def broken_speakers_doc_def broken_speakers_data_def scenario_record)

lemma broken_speakers: "extract_speakers broken_speakers_doc = Inl (KeyError ''name'')"
  by (simp add: extract_speakers_def broken_speakers_doc_def broken_speakers_data_def
        speaker_record_def)

lemma no_metadata_load:
  "load_json_data load_no_metadata json_file example_files = Inr no_metadata_doc"
  by (simp add: load_json_data_def example_files_def load_no_metadata_def)

lemma missing_title_load:
  "load_json_data load_missing_title json_file example_files = Inr missing_title_doc"
  by (simp add: load_json_data_def example_files_def load_missing_title_def)

lemma missing_title_arrays:
  "py_getitem missing_title_doc ''data'' = Inr missing_title_data"
  "py_getitem missing_title_data ''sessions'' = Inr (JArr [scenario_session, JObj untitled_b])"
  by (simp_all add: missing_title_doc_def missing_title_data_def)

lemma untitled_record: "session_record (JObj untitled_b) = Inl (KeyError ''title'')"
  by (simp add: session_record_def untitled_b_def)

lemma second_record: "session_record second_session = Inr second_row"
  by (simp add: session_record_def second_session_def second_row_def joined_field_def)

lemma second_speaker_record: "speaker_record second_speaker = Inr second_speaker_row"
  by (simp add: speaker_record_def second_speaker_def second_speaker_row_def joined_field_def)

lemma second_relationship_record: "relationship_record second_relationship = Inr second_relationship_row"
  by (simp add: relationship_record_def second_relationship_def second_relationship_row_def)

lemma ordered_load: "load_json_data load_ordered json_file example_files = Inr ordered_doc"
  by (simp add: load_json_data_def example_files_def load_ordered_def)

lemma ordered_metadata_ok: "print_metadata ordered_doc = Inr ()"
  by (simp add: print_metadata_def ordered_doc_def example_metadata_def)

lemma ordered_doc_data: "py_getitem ordered_doc ''data'' = Inr ordered_data"
  by (simp add: ordered_doc_def)

lemma ordered_data_arrays:
  "py_getitem ordered_data ''sessions'' = Inr (JArr [scenario_session, second_session, scenario_session])"
  "py_getitem ordered_data ''speakers'' = Inr (JArr [example_speaker, second_speaker, example_speaker])"
  "py_getitem ordered_data ''sessionSpeakers'' =
     Inr (JArr [example_relationship, second_relationship, example_relationship])"
  by (simp_all add: ordered_data_def)

lemma ordered_sessions: "extract_sessions ordered_doc = Inr [scenario_row, second_row, scenario_row]"
  by (simp add: extract_sessions_def ordered_doc_data ordered_data_arrays scenario_record second_record)

lemma ordered_speakers:
  "extract_speakers ordered_doc = Inr [example_speaker_row, second_speaker_row, example_speaker_row]"
  by (simp add: extract_speakers_def ordered_doc_data ordered_data_arrays example_speaker_record
        second_speaker_record)

lemma ordered_relationships:
  "extract_session_speakers ordered_doc =
     Inr [example_relationship_row, second_relationship_row, example_relationship_row]"
  by (simp add: extract_session_speakers_def ordered_doc_data ordered_data_arrays
        example_relationship_record second_relationship_record)

lemma ordered_run_ok: "snd (main load_ordered str_unused example_files) = None"
  by (simp add: main_succeeds [OF ordered_load ordered_metadata_ok ordered_sessions ordered_speakers
        ordered_relationships])

section \<open>C1: the writer and a record that lacks a field\<close>

text \<open>
  C1 (as amended). The writer does not fail when a record lacks a field of the field
  list: if no record has a key outside the field list, the file is written with an empty
  field for each field a record lacks, and there is no error; the writer fails, with
  \<^verbatim>\<open>ValueError\<close>, exactly when some record has a key outside the field list.
\<close>

theorem write_csv_missing_field:
  "(list_all (\<lambda>r. list_all (\<lambda>k. k \<in> set fieldnames) (map fst r)) data \<longrightarrow>
      write_csv py_str filename data fieldnames files =
        (files(filename \<mapsto> writeheader fieldnames @
           concat (map (\<lambda>r. csv_row (map (\<lambda>k. case map_of r k of None \<Rightarrow> [] | Some v \<Rightarrow> csv_cell py_str v) fieldnames)) data)),
         None)) \<and>
   (\<not> list_all (\<lambda>r. list_all (\<lambda>k. k \<in> set fieldnames) (map fst r)) data \<longrightarrow>
      snd (write_csv py_str filename data fieldnames files) = Some ValueError)"
  by (auto simp: write_csv_def writerows_ok dest: writerows_extra [where py_str = py_str] split: prod.splits)

text \<open>
  The claim as stated fails: the record lacks the field \<open>b\<close>, and the writer writes the
  row with an empty second field and raises nothing.
\<close>

theorem write_csv_missing_field_counterexample:
  "write_csv str_unused ''out.csv'' [[(''a'', JStr ''x'')]] [''a'', ''b''] no_files =
     (no_files(''out.csv'' \<mapsto> ''a,b'' @ crlf @ ''x,'' @ crlf), None)"
  by (simp add: write_csv_def writeheader_def dict_to_list_def csv_row_def csv_field_def needs_quote_def dquote_def crlf_def)

theorem write_csv_missing_field_witness:
  "write_csv str_unused ''out.csv'' [[(''a'', JStr ''x'')]] [''a'', ''b''] no_files =
     (no_files(''out.csv'' \<mapsto> ''a,b'' @ crlf @ ''x,'' @ crlf), None) \<and>
   snd (write_csv str_unused ''out.csv'' [[(''c'', JStr ''x'')]] [''a'', ''b''] no_files) = Some ValueError"
  using write_csv_missing_field [of "[''a'', ''b'']" "[[(''a'', JStr ''x'')]]" str_unused "''out.csv''" no_files]
    write_csv_missing_field [of "[''a'', ''b'']" "[[(''c'', JStr ''x'')]]" str_unused "''out.csv''" no_files]
  by (simp add: writeheader_def csv_row_def csv_field_def needs_quote_def dquote_def crlf_def)

section \<open>C2: optional scalar fields\<close>

text \<open>
  C2 (as amended). For every session and every speaker that the extractor converts, and
  every optional scalar field (\<open>session_optional\<close>, \<open>speaker_optional\<close>), the flat record
  has the column in both cases: with the empty string when the field is absent, and
  with the null value itself, not the empty string, when the field is present with a
  null value. The writer writes the empty string and the null value alike as an empty
  field, so the column is never omitted and never holds the text \<^verbatim>\<open>null\<close>.
\<close>

theorem optional_fields_blank:
  "(session_record (JObj kvs) = Inr r \<and> k \<in> set session_optional \<longrightarrow>
      (map_of kvs k = None \<longrightarrow> map_of r k = Some (JStr [])) \<and>
      (map_of kvs k = Some JNull \<longrightarrow> map_of r k = Some JNull)) \<and>
   (speaker_record (JObj kvs') = Inr r' \<and> k' \<in> set speaker_optional \<longrightarrow>
      (map_of kvs' k' = None \<longrightarrow> map_of r' k' = Some (JStr [])) \<and>
      (map_of kvs' k' = Some JNull \<longrightarrow> map_of r' k' = Some JNull)) \<and>
   csv_cell py_str (JStr []) = [] \<and> csv_cell py_str JNull = []"
  by (auto dest: session_record_optional speaker_record_optional)

text \<open>
  The claim as stated fails: a session whose \<^verbatim>\<open>description\<close> is null gets the null value
  in its flat record, not the empty string.
\<close>

theorem optional_fields_blank_counterexample:
  "session_record (JObj [(''id'', JStr ''s1''), (''title'', JStr ''Talk''), (''description'', JNull),
      (''startTime'', JStr ''T0''), (''endTime'', JStr ''T1''), (''createdAt'', JStr ''C0'')]) =
   Inr [(''id'', JStr ''s1''), (''title'', JStr ''Talk''), (''description'', JNull),
      (''startTime'', JStr ''T0''), (''endTime'', JStr ''T1''), (''location'', JStr []),
      (''track'', JStr []), (''level'', JStr []), (''tags'', JStr []),
      (''sourceUrl'', JStr []), (''lastUpdated'', JStr []), (''createdAt'', JStr ''C0'')]"
  by (simp add: session_record_def joined_field_def)

text \<open>
  At the scenario session, which has no \<^verbatim>\<open>description\<close>, and at the example speaker,
  whose \<^verbatim>\<open>bio\<close> is null and who has no \<^verbatim>\<open>company\<close>.
\<close>

theorem optional_fields_blank_witness:
  "session_record scenario_session = Inr scenario_row \<and>
   ''description'' \<in> set session_optional \<and>
   map_of scenario_row ''description'' = Some (JStr []) \<and>
   speaker_record example_speaker = Inr example_speaker_row \<and>
   ''bio'' \<in> set speaker_optional \<and> ''company'' \<in> set speaker_optional \<and>
   map_of example_speaker_row ''bio'' = Some JNull \<and>
   map_of example_speaker_row ''company'' = Some (JStr []) \<and>
   csv_cell str_unused JNull = []"
  using optional_fields_blank [of
      "[(''id'', JStr ''s1''), (''title'', JStr ''Talk''),
        (''startTime'', JStr ''T0''), (''endTime'', JStr ''T1''), (''createdAt'', JStr ''C0''),
        (''tags'', JArr [JStr ''ai'', JStr ''cloud''])]"
      scenario_row "''description''"
      "[(''id'', JStr ''p1''), (''name'', JStr ''Ann''), (''bio'', JNull),
        (''expertise'', JArr [JStr ''ml'']), (''createdAt'', JStr ''C1'')]"
      example_speaker_row "''bio''" str_unused]
    optional_fields_blank [of
      "[(''id'', JStr ''s1''), (''title'', JStr ''Talk''),
        (''startTime'', JStr ''T0''), (''endTime'', JStr ''T1''), (''createdAt'', JStr ''C0''),
        (''tags'', JArr [JStr ''ai'', JStr ''cloud''])]"
      scenario_row "''description''"
      "[(''id'', JStr ''p1''), (''name'', JStr ''Ann''), (''bio'', JNull),
        (''expertise'', JArr [JStr ''ml'']), (''createdAt'', JStr ''C1'')]"
      example_speaker_row "''company''" str_unused]
    scenario_record example_speaker_record
  by (simp add: scenario_session_def example_speaker_def session_optional_def speaker_optional_def)

section \<open>C3: a session that lacks a required field\<close>

text \<open>
  C3 (as amended). For every input document whose \<^verbatim>\<open>data.sessions\<close> is a list in which
  some session lacks a required field (\<open>session_required\<close>), the session extractor
  fails, and the run ends with an error and with no file written. The error of that
  session is a \<^verbatim>\<open>KeyError\<close> that carries the name of a required key the session lacks,
  and nothing else (no position and no identifier), or, when \<^verbatim>\<open>createdAt\<close> is the missing
  key, possibly the \<^verbatim>\<open>TypeError\<close> of joining its tags; it is the error of the extractor
  when the sessions before it convert.
\<close>

theorem missing_required_session_field:
  assumes "load_json_data json_load json_file files = Inr data"
    and "py_getitem data ''data'' = Inr d"
    and "py_getitem d ''sessions'' = Inr (JArr xs)"
    and "JObj kvs \<in> set xs"
    and "k \<in> set session_required"
    and "map_of kvs k = None"
  shows "(\<exists>e. extract_sessions data = Inl e) \<and>
         (\<exists>e. main json_load py_str files = (files, Some e)) \<and>
         (\<exists>e. session_record (JObj kvs) = Inl e \<and>
              ((\<exists>k'. k' \<in> set session_required \<and> map_of kvs k' = None \<and> e = KeyError k') \<or>
               (e = TypeError \<and> k = ''createdAt'')) \<and>
              (\<forall>pre post rs. xs = pre @ JObj kvs # post \<and>
                   list_all2 (\<lambda>x r. session_record x = Inr r) pre rs \<longrightarrow>
                   extract_sessions data = Inl e))"
proof -
  from session_record_missing [OF assms(5,6)] obtain e where
    e: "session_record (JObj kvs) = Inl e"
    and shape: "(\<exists>k'. k' \<in> set session_required \<and> map_of kvs k' = None \<and> e = KeyError k') \<or>
               (e = TypeError \<and> k = ''createdAt'')"
    by blast
  have ex: "extract_sessions data = for_append session_record xs"
    using assms(2,3) by (simp add: extract_sessions_def)
  from for_append_fails [of "JObj kvs" xs session_record e] assms(4) e ex
  obtain e' where e': "extract_sessions data = Inl e'"
    by auto
  have m: "\<exists>e. main json_load py_str files = (files, Some e)"
  proof (cases "print_metadata data")
    case (Inl a)
    with assms(1) show ?thesis by (simp add: main_metadata_fails)
  next
    case (Inr u)
    with assms(1) e' show ?thesis by (simp add: main_sessions_fail)
  qed
  have first: "\<forall>pre post rs. xs = pre @ JObj kvs # post \<and>
                   list_all2 (\<lambda>x r. session_record x = Inr r) pre rs \<longrightarrow>
                   extract_sessions data = Inl e"
    using e ex by (auto simp: for_append_first_error)
  from e' m e shape first show ?thesis by blast
qed

text \<open>
  The claim as stated fails: a session without \<^verbatim>\<open>title\<close> at position 0 with identifier
  \<open>a\<close>, and one at position 1 with identifier \<open>b\<close>, give the same error, which names the
  key only.
\<close>

theorem missing_required_session_field_counterexample:
  "extract_sessions missing_title_first_doc = Inl (KeyError ''title'') \<and>
   extract_sessions missing_title_doc = Inl (KeyError ''title'')"
proof -
  have "session_record (JObj [(''id'', JStr ''a'')]) = Inl (KeyError ''title'')"
    by (simp add: session_record_def)
  then show ?thesis
    by (simp add: extract_sessions_def missing_title_first_doc_def missing_title_arrays
        scenario_record untitled_record)
qed

theorem missing_required_session_field_witness:
  "load_json_data load_missing_title json_file example_files = Inr missing_title_doc \<and>
   py_getitem missing_title_doc ''data'' = Inr missing_title_data \<and>
   py_getitem missing_title_data ''sessions'' = Inr (JArr [scenario_session, JObj untitled_b]) \<and>
   ''title'' \<in> set session_required \<and> map_of untitled_b ''title'' = None \<and>
   session_record (JObj untitled_b) = Inl (KeyError ''title'') \<and>
   extract_sessions missing_title_doc = Inl (KeyError ''title'') \<and>
   main load_missing_title str_unused example_files = (example_files, Some (KeyError ''title''))"
proof -
  have k: "''title'' \<in> set session_required" by (simp add: session_required_def)
  have n: "map_of untitled_b ''title'' = None" by (simp add: untitled_b_def)
  have i: "JObj untitled_b \<in> set [scenario_session, JObj untitled_b]" by simp
  note T = missing_required_session_field [OF missing_title_load missing_title_arrays i k n, of str_unused]
  from T have "\<exists>e. main load_missing_title str_unused example_files = (example_files, Some e)"
    by (rule conjunct1 [OF conjunct2])
  then obtain e where m: "main load_missing_title str_unused example_files = (example_files, Some e)" ..
  have ex: "extract_sessions missing_title_doc = Inl (KeyError ''title'')"
    by (simp add: extract_sessions_def missing_title_arrays scenario_record untitled_record)
  have md: "print_metadata missing_title_doc = Inr ()"
    by (simp add: print_metadata_def missing_title_doc_def example_metadata_def)
  from main_sessions_fail [OF missing_title_load md ex, of str_unused] m
  have "main load_missing_title str_unused example_files = (example_files, Some (KeyError ''title''))"
    by simp
  with missing_title_load missing_title_arrays k n untitled_record ex show ?thesis by simp
qed

section \<open>C4: one row for each input element, in input order\<close>

text \<open>
  C4. For every document on which the run succeeds and whose three arrays are lists,
  each output file, read back as comma-delimited text, is the header record followed by
  one record for each element of its array and no other: the data rows are as many as
  the elements, and the i-th data row holds the cells of the flat record of the i-th
  element. Nothing is sorted, dropped, merged or moved.
\<close>

theorem rows_follow_input:
  assumes "load_json_data json_load json_file files = Inr data"
    and "snd (main json_load py_str files) = None"
    and "py_getitem data ''data'' = Inr d"
    and "py_getitem d ''sessions'' = Inr (JArr sessions)"
    and "py_getitem d ''speakers'' = Inr (JArr speakers)"
    and "py_getitem d ''sessionSpeakers'' = Inr (JArr relationships)"
  shows "\<exists>ss sp rel.
     length ss = length sessions \<and> list_all2 (\<lambda>x r. session_record x = Inr r) sessions ss \<and>
     fst (main json_load py_str files) sessions_csv = Some (csv_text py_str session_fields ss) \<and>
     csv_records (csv_text py_str session_fields ss) = session_fields # map (record_cells py_str) ss \<and>
     length (csv_records (csv_text py_str session_fields ss)) = Suc (length sessions) \<and>
     (\<forall>i<length sessions. session_record (sessions ! i) = Inr (ss ! i) \<and>
        csv_records (csv_text py_str session_fields ss) ! Suc i = record_cells py_str (ss ! i)) \<and>
     length sp = length speakers \<and> list_all2 (\<lambda>x r. speaker_record x = Inr r) speakers sp \<and>
     fst (main json_load py_str files) speakers_csv = Some (csv_text py_str speaker_fields sp) \<and>
     csv_records (csv_text py_str speaker_fields sp) = speaker_fields # map (record_cells py_str) sp \<and>
     length (csv_records (csv_text py_str speaker_fields sp)) = Suc (length speakers) \<and>
     (\<forall>i<length speakers. speaker_record (speakers ! i) = Inr (sp ! i) \<and>
        csv_records (csv_text py_str speaker_fields sp) ! Suc i = record_cells py_str (sp ! i)) \<and>
     length rel = length relationships \<and>
     list_all2 (\<lambda>x r. relationship_record x = Inr r) relationships rel \<and>
     fst (main json_load py_str files) session_speakers_csv = Some (csv_text py_str relationship_fields rel) \<and>
     csv_records (csv_text py_str relationship_fields rel) =
       relationship_fields # map (record_cells py_str) rel \<and>
     length (csv_records (csv_text py_str relationship_fields rel)) = Suc (length relationships) \<and>
     (\<forall>i<length relationships. relationship_record (relationships ! i) = Inr (rel ! i) \<and>
        csv_records (csv_text py_str relationship_fields rel) ! Suc i = record_cells py_str (rel ! i))"
proof -
  from main_success_D [OF assms(1,2)] obtain ss sp rel where
    ex: "extract_sessions data = Inr ss" "extract_speakers data = Inr sp" "extract_session_speakers data = Inr rel"
    and m: "main json_load py_str files =
             (files(sessions_csv \<mapsto> csv_text py_str session_fields ss,
                    speakers_csv \<mapsto> csv_text py_str speaker_fields sp,
                    session_speakers_csv \<mapsto> csv_text py_str relationship_fields rel), None)"
    by blast
  have 1: "list_all2 (\<lambda>x r. session_record x = Inr r) sessions ss"
    using ex(1) assms(3,4) by (simp add: extract_sessions_def for_append_Inr_D)
  have 2: "list_all2 (\<lambda>x r. speaker_record x = Inr r) speakers sp"
    using ex(2) assms(3,5) by (simp add: extract_speakers_def for_append_Inr_D)
  have 3: "list_all2 (\<lambda>x r. relationship_record x = Inr r) relationships rel"
    using ex(3) assms(3,6) by (simp add: extract_session_speakers_def for_append_Inr_D)
  from 1 2 3 have len: "length ss = length sessions" "length sp = length speakers"
      "length rel = length relationships"
    by (simp_all add: list_all2_lengthD)
  have r1: "csv_records (csv_text py_str session_fields ss) = session_fields # map (record_cells py_str) ss"
    by (rule csv_records_text [OF fields_nonempty(1) extract_sessions_rows [OF ex(1)]])
  have r2: "csv_records (csv_text py_str speaker_fields sp) = speaker_fields # map (record_cells py_str) sp"
    by (rule csv_records_text [OF fields_nonempty(2) extract_speakers_rows [OF ex(2)]])
  have r3: "csv_records (csv_text py_str relationship_fields rel) =
       relationship_fields # map (record_cells py_str) rel"
    by (rule csv_records_text [OF fields_nonempty(3) extract_session_speakers_rows [OF ex(3)]])
  have i1: "\<forall>i<length sessions. session_record (sessions ! i) = Inr (ss ! i) \<and>
        csv_records (csv_text py_str session_fields ss) ! Suc i = record_cells py_str (ss ! i)"
    using 1 len(1) by (simp add: r1 list_all2_conv_all_nth)
  have i2: "\<forall>i<length speakers. speaker_record (speakers ! i) = Inr (sp ! i) \<and>
        csv_records (csv_text py_str speaker_fields sp) ! Suc i = record_cells py_str (sp ! i)"
    using 2 len(2) by (simp add: r2 list_all2_conv_all_nth)
  have i3: "\<forall>i<length relationships. relationship_record (relationships ! i) = Inr (rel ! i) \<and>
        csv_records (csv_text py_str relationship_fields rel) ! Suc i = record_cells py_str (rel ! i)"
    using 3 len(3) by (simp add: r3 list_all2_conv_all_nth)
  have f: "fst (main json_load py_str files) sessions_csv = Some (csv_text py_str session_fields ss)"
    "fst (main json_load py_str files) speakers_csv = Some (csv_text py_str speaker_fields sp)"
    "fst (main json_load py_str files) session_speakers_csv = Some (csv_text py_str relationship_fields rel)"
    using m paths_distinct by simp_all
  have l: "length (csv_records (csv_text py_str session_fields ss)) = Suc (length sessions)"
    "length (csv_records (csv_text py_str speaker_fields sp)) = Suc (length speakers)"
    "length (csv_records (csv_text py_str relationship_fields rel)) = Suc (length relationships)"
    using len by (simp_all add: r1 r2 r3)
  show ?thesis
    apply (rule exI [of _ ss], rule exI [of _ sp], rule exI [of _ rel])
    apply (intro conjI)
    apply (fact len 1 2 3 f r1 r2 r3 l i1 i2 i3)+
    done
qed

text \<open>
  At the document with three elements in each array: the rows come back in the order
  of the input, the repeated element twice, and the title with a comma, a line break
  and a quote as one cell.
\<close>

theorem rows_follow_input_witness:
  "load_json_data load_ordered json_file example_files = Inr ordered_doc \<and>
   snd (main load_ordered str_unused example_files) = None \<and>
   py_getitem ordered_doc ''data'' = Inr ordered_data \<and>
   py_getitem ordered_data ''sessions'' = Inr (JArr [scenario_session, second_session, scenario_session]) \<and>
   py_getitem ordered_data ''speakers'' = Inr (JArr [example_speaker, second_speaker, example_speaker]) \<and>
   py_getitem ordered_data ''sessionSpeakers'' =
     Inr (JArr [example_relationship, second_relationship, example_relationship]) \<and>
   map_option csv_records (fst (main load_ordered str_unused example_files) sessions_csv) =
     Some [session_fields,
       [''s1'', ''Talk'', [], ''T0'', ''T1'', [], [], [], ''ai|cloud'', [], [], ''C0''],
       [''s0'', ''A,B'' @ crlf @ [dquote], [], ''T2'', ''T3'', [], [], [], [], [], [], ''C2''],
       [''s1'', ''Talk'', [], ''T0'', ''T1'', [], [], [], ''ai|cloud'', [], [], ''C0'']] \<and>
   map_option csv_records (fst (main load_ordered str_unused example_files) speakers_csv) =
     Some [speaker_fields,
       [''p1'', ''Ann'', [], [], [], [], [], [], [], [], [], ''ml'', [], [], ''C1''],
       [''p0'', ''Bob'', [], [], [], [], [], [], [], [], [], [], [], [], ''C3''],
       [''p1'', ''Ann'', [], [], [], [], [], [], [], [], [], ''ml'', [], [], ''C1'']] \<and>
   map_option csv_records (fst (main load_ordered str_unused example_files) session_speakers_csv) =
     Some [relationship_fields, [''s1'', ''p1''], [''s0'', ''p1''], [''s1'', ''p1'']]"
proof -
  from rows_follow_input [OF ordered_load ordered_run_ok ordered_doc_data ordered_data_arrays]
  obtain ss sp rel where
    a: "list_all2 (\<lambda>x r. session_record x = Inr r) [scenario_session, second_session, scenario_session] ss"
    and a1: "fst (main load_ordered str_unused example_files) sessions_csv =
       Some (csv_text str_unused session_fields ss)"
    and a2: "csv_records (csv_text str_unused session_fields ss) =
       session_fields # map (record_cells str_unused) ss"
    and b: "list_all2 (\<lambda>x r. speaker_record x = Inr r) [example_speaker, second_speaker, example_speaker] sp"
    and b1: "fst (main load_ordered str_unused example_files) speakers_csv =
       Some (csv_text str_unused speaker_fields sp)"
    and b2: "csv_records (csv_text str_unused speaker_fields sp) =
       speaker_fields # map (record_cells str_unused) sp"
    and c: "list_all2 (\<lambda>x r. relationship_record x = Inr r)
       [example_relationship, second_relationship, example_relationship] rel"
    and c1: "fst (main load_ordered str_unused example_files) session_speakers_csv =
       Some (csv_text str_unused relationship_fields rel)"
    and c2: "csv_records (csv_text str_unused relationship_fields rel) =
       relationship_fields # map (record_cells str_unused) rel"
    by blast
  from a have ss: "ss = [scenario_row, second_row, scenario_row]"
    by (auto simp: list_all2_Cons1 scenario_record second_record)
  from b have sp: "sp = [example_speaker_row, second_speaker_row, example_speaker_row]"
    by (auto simp: list_all2_Cons1 example_speaker_record second_speaker_record)
  from c have rel: "rel = [example_relationship_row, second_relationship_row, example_relationship_row]"
    by (auto simp: list_all2_Cons1 example_relationship_record second_relationship_record)
  have s: "map_option csv_records (fst (main load_ordered str_unused example_files) sessions_csv) =
     Some [session_fields,
       [''s1'', ''Talk'', [], ''T0'', ''T1'', [], [], [], ''ai|cloud'', [], [], ''C0''],
       [''s0'', ''A,B'' @ crlf @ [dquote], [], ''T2'', ''T3'', [], [], [], [], [], [], ''C2''],
       [''s1'', ''Talk'', [], ''T0'', ''T1'', [], [], [], ''ai|cloud'', [], [], ''C0'']]"
    by (simp only: a1 a2 option.map) (simp add: ss record_cells_def scenario_row_def second_row_def)
  have p: "map_option csv_records (fst (main load_ordered str_unused example_files) speakers_csv) =
     Some [speaker_fields,
       [''p1'', ''Ann'', [], [], [], [], [], [], [], [], [], ''ml'', [], [], ''C1''],
       [''p0'', ''Bob'', [], [], [], [], [], [], [], [], [], [], [], [], ''C3''],
       [''p1'', ''Ann'', [], [], [], [], [], [], [], [], [], ''ml'', [], [], ''C1'']]"
    by (simp only: b1 b2 option.map)
       (simp add: sp record_cells_def example_speaker_row_def second_speaker_row_def)
  have r: "map_option csv_records (fst (main load_ordered str_unused example_files) session_speakers_csv) =
     Some [relationship_fields, [''s1'', ''p1''], [''s0'', ''p1''], [''s1'', ''p1'']]"
    by (simp only: c1 c2 option.map)
       (simp add: rel record_cells_def example_relationship_row_def second_relationship_row_def)
  from ordered_load ordered_run_ok ordered_doc_data ordered_data_arrays s p r
  show ?thesis by (intro conjI)
qed

section \<open>C5: the end-to-end scenario\<close>

text \<open>
  C5. For every document that passes the metadata summary and whose \<^verbatim>\<open>data.sessions\<close> is
  the one session of the scenario, the sessions file after the run is the header row
  followed by exactly the row \<^verbatim>\<open>s1,Talk,,T0,T1,,,,ai|cloud,,,C0\<close>, each ended by CR LF
  (\<open>scenario_csv\<close>).
\<close>

theorem scenario_sessions_csv:
  assumes "load_json_data json_load json_file files = Inr data"
    and "print_metadata data = Inr u"
    and "py_getitem data ''data'' = Inr d"
    and "py_getitem d ''sessions'' = Inr (JArr [scenario_session])"
  shows "fst (main json_load py_str files) sessions_csv =
     Some (''id,title,description,startTime,endTime,location,track,level,tags,sourceUrl,lastUpdated,createdAt'' @ crlf
           @ ''s1,Talk,,T0,T1,,,,ai|cloud,,,C0'' @ crlf)"
proof -
  have "extract_sessions data = Inr [scenario_row]"
    using assms(3,4) by (simp add: extract_sessions_def scenario_record)
  from main_sessions_written [OF assms(1,2) this] show ?thesis
    by (simp add: scenario_text scenario_csv_def)
qed

theorem scenario_sessions_csv_witness:
  "load_json_data load_example json_file example_files = Inr example_doc \<and>
   print_metadata example_doc = Inr () \<and>
   py_getitem example_doc ''data'' = Inr example_data \<and>
   py_getitem example_data ''sessions'' = Inr (JArr [scenario_session]) \<and>
   fst (main load_example str_unused example_files) sessions_csv =
     Some (''id,title,description,startTime,endTime,location,track,level,tags,sourceUrl,lastUpdated,createdAt'' @ crlf
           @ ''s1,Talk,,T0,T1,,,,ai|cloud,,,C0'' @ crlf)"
  using scenario_sessions_csv [OF example_load example_metadata_ok example_doc_data
      example_data_arrays(1), of str_unused]
    example_load example_metadata_ok example_doc_data example_data_arrays(1)
  by simp

section \<open>C6: joining a list field and splitting it again\<close>

text \<open>
  C6 (as amended). For every non-empty list of strings none of which contains the
  vertical bar, held by a record under a key, the joined field of that key (the
  expression of the columns \<^verbatim>\<open>tags\<close>, \<^verbatim>\<open>expertise\<close> and \<^verbatim>\<open>achievements\<close>) is the items joined
  with the bar, and splitting it at the bar gives the list back.
\<close>

theorem join_split_roundtrip:
  assumes "items \<noteq> []"
    and "list_all (\<lambda>s. CHR ''|'' \<notin> set s) items"
    and "map_of kvs k = Some (JArr (map JStr items))"
  shows "joined_field (JObj kvs) k = Inr (JStr (join_strs ''|'' items)) \<and>
         split_on (CHR ''|'') (join_strs ''|'' items) = items"
  using assms split_join [of items "CHR ''|''"]
  by (simp add: joined_field_def str_join_strings)

text \<open>
  The claim as stated fails at the empty list: it is joined to the empty string, as is
  the list of one empty string, and the empty string splits into one empty piece.
\<close>

theorem join_split_roundtrip_counterexample:
  "joined_field (JObj [(''tags'', JArr [])]) ''tags'' = Inr (JStr []) \<and>
   joined_field (JObj [(''tags'', JArr [JStr []])]) ''tags'' = Inr (JStr []) \<and>
   split_on (CHR ''|'') [] = [[]]"
  by (simp add: joined_field_def str_join_def)

theorem join_split_roundtrip_witness:
  "joined_field scenario_session ''tags'' = Inr (JStr ''ai|cloud'') \<and>
   split_on (CHR ''|'') ''ai|cloud'' = [''ai'', ''cloud'']"
  using join_split_roundtrip [of "[''ai'', ''cloud'']"
      "[(''id'', JStr ''s1''), (''title'', JStr ''Talk''),
        (''startTime'', JStr ''T0''), (''endTime'', JStr ''T1''), (''createdAt'', JStr ''C0''),
        (''tags'', JArr [JStr ''ai'', JStr ''cloud''])]" "''tags''"]
  by (simp add: scenario_session_def)

section \<open>C7: a second run on the unchanged input\<close>

text \<open>
  C7. A run is a function of the input file and of nothing else (the model has no clock
  and no random source, as the script reads none). Running the tool again on the files
  the first run left gives the same files and the same outcome; and two runs from file
  systems that hold the same input file end the same way and, when they succeed, leave
  the same contents in the three output files, whatever earlier runs had left there.
\<close>

theorem rerun_same_outputs:
  "main json_load py_str (fst (main json_load py_str files)) = main json_load py_str files \<and>
   (files2 json_file = files json_file \<longrightarrow>
      snd (main json_load py_str files2) = snd (main json_load py_str files) \<and>
      (snd (main json_load py_str files) = None \<longrightarrow>
         fst (main json_load py_str files2) sessions_csv = fst (main json_load py_str files) sessions_csv \<and>
         fst (main json_load py_str files2) speakers_csv = fst (main json_load py_str files) speakers_csv \<and>
         fst (main json_load py_str files2) session_speakers_csv =
           fst (main json_load py_str files) session_speakers_csv))"
  using main_idempotent [of json_load py_str files]
    main_same_status [of files2 files json_load py_str]
    main_same_outputs [of files2 files json_load py_str]
  by blast

theorem rerun_same_outputs_witness:
  "old_files json_file = example_files json_file \<and>
   snd (main load_example str_unused example_files) = None \<and>
   main load_example str_unused (fst (main load_example str_unused example_files)) =
     main load_example str_unused example_files \<and>
   snd (main load_example str_unused old_files) = None \<and>
   fst (main load_example str_unused old_files) sessions_csv =
     fst (main load_example str_unused example_files) sessions_csv \<and>
   fst (main load_example str_unused old_files) speakers_csv =
     fst (main load_example str_unused example_files) speakers_csv \<and>
   fst (main load_example str_unused old_files) session_speakers_csv =
     fst (main load_example str_unused example_files) session_speakers_csv"
  using rerun_same_outputs [of load_example str_unused example_files old_files]
    old_files_input example_run_ok
  by simp

section \<open>C8: speakers extraction fails after the sessions file is written\<close>

text \<open>
  C8. For every document that passes the metadata summary, whose sessions are extracted
  (then the writer writes them without error) and whose speakers extraction fails, the
  run ends with the error of the speakers extraction; the sessions file holds the header
  and every session row, and the speakers file and the relationships file are as they
  were before the run.
\<close>

theorem speakers_failure_keeps_sessions_csv:
  assumes "load_json_data json_load json_file files = Inr data"
    and "print_metadata data = Inr u"
    and "extract_sessions data = Inr ss"
    and "extract_speakers data = Inl e"
  shows "snd (write_csv py_str sessions_csv ss session_fields files) = None \<and>
         snd (main json_load py_str files) = Some e \<and>
         fst (main json_load py_str files) sessions_csv = Some (csv_text py_str session_fields ss) \<and>
         fst (main json_load py_str files) speakers_csv = files speakers_csv \<and>
         fst (main json_load py_str files) session_speakers_csv = files session_speakers_csv"
  using assms paths_distinct
  by (simp add: main_speakers_fail write_sessions)

theorem speakers_failure_keeps_sessions_csv_witness:
  "load_json_data load_broken_speakers json_file example_files = Inr broken_speakers_doc \<and>
   print_metadata broken_speakers_doc = Inr () \<and>
   extract_sessions broken_speakers_doc = Inr [scenario_row] \<and>
   extract_speakers broken_speakers_doc = Inl (KeyError ''name'') \<and>
   snd (main load_broken_speakers str_unused example_files) = Some (KeyError ''name'') \<and>
   fst (main load_broken_speakers str_unused example_files) sessions_csv = Some scenario_csv \<and>
   fst (main load_broken_speakers str_unused example_files) speakers_csv = None \<and>
   fst (main load_broken_speakers str_unused example_files) session_speakers_csv = None"
  using speakers_failure_keeps_sessions_csv [OF broken_load broken_metadata broken_sessions broken_speakers,
      of str_unused]
    broken_load broken_metadata broken_sessions broken_speakers paths_distinct
  by (simp add: scenario_text example_files_def no_files_def)

section \<open>C9: the keys of the extracted records\<close>

text \<open>
  C9. Every flat record an extractor returns has exactly the keys of the field list of
  its category, in that order (12 for sessions, 15 for speakers, 2 for relationships,
  none repeated), so the writer raises nothing on the records of an extractor.
\<close>

theorem extractor_records_match_fields:
  "(extract_sessions data = Inr ss \<longrightarrow>
      list_all (\<lambda>r. map fst r = session_fields) ss \<and>
      snd (write_csv py_str p ss session_fields files) = None) \<and>
   (extract_speakers data = Inr sp \<longrightarrow>
      list_all (\<lambda>r. map fst r = speaker_fields) sp \<and>
      snd (write_csv py_str p sp speaker_fields files) = None) \<and>
   (extract_session_speakers data = Inr rel \<longrightarrow>
      list_all (\<lambda>r. map fst r = relationship_fields) rel \<and>
      snd (write_csv py_str p rel relationship_fields files) = None) \<and>
   distinct session_fields \<and> length session_fields = 12 \<and>
   distinct speaker_fields \<and> length speaker_fields = 15 \<and>
   distinct relationship_fields \<and> length relationship_fields = 2"
proof -
  have "length session_fields = 12" "length speaker_fields = 15" "length relationship_fields = 2"
    by (simp_all add: session_fields_def speaker_fields_def relationship_fields_def)
  then show ?thesis
    by (simp add: extract_sessions_rows extract_speakers_rows extract_session_speakers_rows
          write_sessions write_speakers write_relationships fields_distinct)
qed

theorem extractor_records_match_fields_witness:
  "extract_sessions example_doc = Inr [scenario_row] \<and>
   map fst scenario_row = session_fields \<and>
   snd (write_csv str_unused sessions_csv [scenario_row] session_fields no_files) = None \<and>
   extract_speakers example_doc = Inr [example_speaker_row] \<and>
   map fst example_speaker_row = speaker_fields \<and>
   snd (write_csv str_unused sessions_csv [example_speaker_row] speaker_fields no_files) = None \<and>
   extract_session_speakers example_doc = Inr [example_relationship_row] \<and>
   map fst example_relationship_row = relationship_fields \<and>
   snd (write_csv str_unused sessions_csv [example_relationship_row] relationship_fields no_files) = None"
  using extractor_records_match_fields [of example_doc "[scenario_row]" str_unused sessions_csv
      no_files "[example_speaker_row]" "[example_relationship_row]"]
    example_sessions example_speakers example_relationships
  by simp

section \<open>C10: the metadata keys are required\<close>

text \<open>
  C10. For every loaded document that lacks \<^verbatim>\<open>metadata\<close>, \<^verbatim>\<open>metadata.exportedAt\<close> or one of
  \<^verbatim>\<open>metadata.counts.sessions\<close>, \<^verbatim>\<open>metadata.counts.speakers\<close> and
  \<^verbatim>\<open>metadata.counts.sessionSpeakers\<close>, the metadata summary raises, the run ends with that
  error before any extraction, and the files are as they were: none of the three
  output files is written.
\<close>

theorem missing_metadata_aborts:
  assumes "load_json_data json_load json_file files = Inr data"
    and "\<not> has_path data [''metadata''] \<or>
         \<not> has_path data [''metadata'', ''exportedAt''] \<or>
         \<not> has_path data [''metadata'', ''counts'', ''sessions''] \<or>
         \<not> has_path data [''metadata'', ''counts'', ''speakers''] \<or>
         \<not> has_path data [''metadata'', ''counts'', ''sessionSpeakers'']"
  shows "\<exists>e. print_metadata data = Inl e \<and> main json_load py_str files = (files, Some e)"
proof (cases "print_metadata data")
  case (Inl e)
  with assms(1) show ?thesis by (simp add: main_metadata_fails)
next
  case (Inr u)
  then have "has_path data [''metadata'', ''exportedAt''] \<and>
     has_path data [''metadata'', ''counts'', ''sessions''] \<and>
     has_path data [''metadata'', ''counts'', ''speakers''] \<and>
     has_path data [''metadata'', ''counts'', ''sessionSpeakers'']"
    by (simp only: print_metadata_ok)
  with assms(2) has_path_metadata [of data] show ?thesis by blast
qed

text \<open>
  The document without \<^verbatim>\<open>metadata\<close> has the data of the complete example, which the
  extractors convert: the run fails all the same.
\<close>

theorem missing_metadata_aborts_witness:
  "load_json_data load_no_metadata json_file example_files = Inr no_metadata_doc \<and>
   \<not> has_path no_metadata_doc [''metadata''] \<and>
   print_metadata no_metadata_doc = Inl (KeyError ''metadata'') \<and>
   extract_sessions no_metadata_doc = Inr [scenario_row] \<and>
   main load_no_metadata str_unused example_files = (example_files, Some (KeyError ''metadata''))"
proof -
  have h: "\<not> has_path no_metadata_doc [''metadata'']"
    by (simp add: no_metadata_doc_def)
  have p: "print_metadata no_metadata_doc = Inl (KeyError ''metadata'')"
    by (simp add: print_metadata_def no_metadata_doc_def)
  have x: "extract_sessions no_metadata_doc = Inr [scenario_row]"
    by (simp add: extract_sessions_def no_metadata_doc_def example_data_arrays scenario_record)
  from missing_metadata_aborts [OF no_metadata_load, of str_unused] h p x no_metadata_load
  show ?thesis by simp
qed

end
